theory Spec2Isabelle
  imports Complex_Main "HOL-Library.Sublist"
begin

section \<open>JavaScript values\<close>

text \<open>
  The engine works on untyped JavaScript data (\<^verbatim>\<open>unknown\<close> in the TypeScript sources).
  A value is \<^verbatim>\<open>undefined\<close>, \<^verbatim>\<open>null\<close>, a boolean, a number, a string, an array or a
  plain object. Arrays and objects carry a reference: \<^verbatim>\<open>===\<close> compares them by identity,
  not by content. An object is the list of its own properties in enumeration order.
  A number is an IEEE double, modelled by the real it denotes, the two infinities or NaN
  (the two zeros are one value: they compare equal and print alike).
\<close>

datatype jsnum = NaN | NegInfinity | Finite real | PosInfinity

datatype jsval =
    JUndefined
  | JNull
  | JBool bool
  | JNum jsnum
  | JStr string
  | JArr nat "jsval list"
  | JObj nat "(string \<times> jsval) list"

datatype jstype = TUndefined | TObject | TBoolean | TNumber | TString

text \<open>The \<^verbatim>\<open>typeof\<close> operator; \<^verbatim>\<open>typeof null\<close> is \<^verbatim>\<open>'object'\<close>.\<close>

fun typeOf :: "jsval \<Rightarrow> jstype" where
  "typeOf JUndefined = TUndefined"
| "typeOf JNull = TObject"
| "typeOf (JBool _) = TBoolean"
| "typeOf (JNum _) = TNumber"
| "typeOf (JStr _) = TString"
| "typeOf (JArr _ _) = TObject"
| "typeOf (JObj _ _) = TObject"

text \<open>The relational operators on numbers: every comparison with NaN is false.\<close>

fun numLess :: "jsnum \<Rightarrow> jsnum \<Rightarrow> bool" where
  "numLess (Finite a) (Finite b) = (a < b)"
| "numLess NegInfinity (Finite _) = True"
| "numLess NegInfinity PosInfinity = True"
| "numLess (Finite _) PosInfinity = True"
| "numLess _ _ = False"

definition numEq :: "jsnum \<Rightarrow> jsnum \<Rightarrow> bool" where
  "numEq a b = (a \<noteq> NaN \<and> b \<noteq> NaN \<and> a = b)"

definition numLessEq :: "jsnum \<Rightarrow> jsnum \<Rightarrow> bool" where
  "numLessEq a b = (numLess a b \<or> numEq a b)"

text \<open>Strict equality \<^verbatim>\<open>===\<close>: same type and same value, objects by reference.\<close>

fun strictEquals :: "jsval \<Rightarrow> jsval \<Rightarrow> bool" where
  "strictEquals JUndefined JUndefined = True"
| "strictEquals JNull JNull = True"
| "strictEquals (JBool a) (JBool b) = (a = b)"
| "strictEquals (JNum a) (JNum b) = numEq a b"
| "strictEquals (JStr a) (JStr b) = (a = b)"
| "strictEquals (JArr r _) (JArr r' _) = (r = r')"
| "strictEquals (JObj r _) (JObj r' _) = (r = r')"
| "strictEquals _ _ = False"

section \<open>Expression engine: comparison\<close>

datatype ComparisonOperator =
  OpEq | OpNe | OpGt | OpLt | OpGe | OpLe | OpContains | OpStartsWith | OpEndsWith

text \<open>
  \<^verbatim>\<open>evaluateComparison\<close> of expressionEngine.ts. \<^verbatim>\<open>String.prototype.includes\<close>,
  \<^verbatim>\<open>startsWith\<close> and \<^verbatim>\<open>endsWith\<close> are the sublist, prefix and suffix relations.
\<close>

fun evaluateComparison :: "jsval \<Rightarrow> ComparisonOperator \<Rightarrow> jsval \<Rightarrow> bool" where
  "evaluateComparison left OpEq right = strictEquals left right"
| "evaluateComparison left OpNe right = (\<not> strictEquals left right)"
| "evaluateComparison left OpGt right =
     (case (left, right) of (JNum l, JNum r) \<Rightarrow> numLess r l | _ \<Rightarrow> False)"
| "evaluateComparison left OpLt right =
     (case (left, right) of (JNum l, JNum r) \<Rightarrow> numLess l r | _ \<Rightarrow> False)"
| "evaluateComparison left OpGe right =
     (case (left, right) of (JNum l, JNum r) \<Rightarrow> numLessEq r l | _ \<Rightarrow> False)"
| "evaluateComparison left OpLe right =
     (case (left, right) of (JNum l, JNum r) \<Rightarrow> numLessEq l r | _ \<Rightarrow> False)"
| "evaluateComparison left OpContains right =
     (case (left, right) of (JStr l, JStr r) \<Rightarrow> sublist r l | _ \<Rightarrow> False)"
| "evaluateComparison left OpStartsWith right =
     (case (left, right) of (JStr l, JStr r) \<Rightarrow> prefix r l | _ \<Rightarrow> False)"
| "evaluateComparison left OpEndsWith right =
     (case (left, right) of (JStr l, JStr r) \<Rightarrow> suffix r l | _ \<Rightarrow> False)"

section \<open>Strings\<close>

text \<open>\<^verbatim>\<open>Array.prototype.join\<close> on an array of strings.\<close>

fun join :: "string \<Rightarrow> string list \<Rightarrow> string" where
  "join sep [] = []"
| "join sep [x] = x"
| "join sep (x # y # ys) = x @ sep @ join sep (y # ys)"

text \<open>
  Decimal rendering of an integer, as a template literal renders a number
  (\<^verbatim>\<open>String(n)\<close> for the integers below \<^verbatim>\<open>1e21\<close> in magnitude).
\<close>

definition digitChar :: "nat \<Rightarrow> char" where
  "digitChar d = char_of (48 + d)"

function showNat :: "nat \<Rightarrow> string" where
  "showNat n = (if n < 10 then [digitChar n] else showNat (n div 10) @ [digitChar (n mod 10)])"
  by pat_completeness auto
termination
  by (relation "measure id") auto

definition showInt :: "int \<Rightarrow> string" where
  "showInt i = (if i < 0 then CHR ''-'' # showNat (nat (- i)) else showNat (nat i))"

section \<open>Reading JavaScript values\<close>

text \<open>
  A string is a list of characters, each a code unit below 256. Truthiness is the
  conversion \<^verbatim>\<open>!!v\<close>.
\<close>

fun truthy :: "jsval \<Rightarrow> bool" where
  "truthy JUndefined = False"
| "truthy JNull = False"
| "truthy (JBool b) = b"
| "truthy (JNum n) = (n \<noteq> NaN \<and> n \<noteq> Finite 0)"
| "truthy (JStr s) = (s \<noteq> [])"
| "truthy (JArr _ _) = True"
| "truthy (JObj _ _) = True"

definition isDigit :: "char \<Rightarrow> bool" where
  "isDigit c = (48 \<le> (of_char c :: nat) \<and> (of_char c :: nat) \<le> 57)"

definition digitVal :: "char \<Rightarrow> nat" where
  "digitVal c = of_char c - 48"

definition digitsValue :: "string \<Rightarrow> nat" where
  "digitsValue ds = foldl (\<lambda>a c. 10 * a + digitVal c) 0 ds"

text \<open>White space and line terminators, as \<^verbatim>\<open>trim\<close> and \<^verbatim>\<open>parseInt\<close> skip them.\<close>

definition isWhiteSpace :: "char \<Rightarrow> bool" where
  "isWhiteSpace c = ((of_char c :: nat) \<in> {9, 10, 11, 12, 13, 32, 160})"

definition trim :: "string \<Rightarrow> string" where
  "trim s = rev (dropWhile isWhiteSpace (rev (dropWhile isWhiteSpace s)))"

text \<open>
  \<^verbatim>\<open>parseInt(s, 10)\<close>: leading white space, an optional sign, then the longest run of
  digits; \<open>None\<close> is \<^verbatim>\<open>NaN\<close>. The result is the exact integer.
\<close>

definition parseInt :: "string \<Rightarrow> int option" where
  "parseInt s =
     (let t = dropWhile isWhiteSpace s;
          neg = (t \<noteq> [] \<and> hd t = CHR ''-'');
          u = (if t \<noteq> [] \<and> (hd t = CHR ''-'' \<or> hd t = CHR ''+'') then tl t else t);
          ds = takeWhile isDigit u
      in if ds = [] then None
         else Some (if neg then - int (digitsValue ds) else int (digitsValue ds)))"

text \<open>
  An array index as a property name: the decimal numeral of a natural number, without
  leading zeros.
\<close>

definition arrayIndexName :: "string \<Rightarrow> nat option" where
  "arrayIndexName name =
     (if name \<noteq> [] \<and> list_all isDigit name \<and> (name = ''0'' \<or> hd name \<noteq> CHR ''0'')
      then Some (digitsValue name) else None)"

text \<open>
  The property read \<^verbatim>\<open>v[name]\<close> with a string name, on own properties: the members of
  an object, the elements and the length of an array or a string. Members inherited from
  a prototype (\<^verbatim>\<open>toString\<close>, \<^verbatim>\<open>constructor\<close>, ...) are not part of the data and are not
  modelled: a name that is no own property reads as \<^verbatim>\<open>undefined\<close>. The keys of an object
  are assumed distinct.
\<close>

fun getProp :: "jsval \<Rightarrow> string \<Rightarrow> jsval" where
  "getProp (JObj _ kvs) name = (case map_of kvs name of Some v \<Rightarrow> v | None \<Rightarrow> JUndefined)"
| "getProp (JArr _ xs) name =
     (if name = ''length'' then JNum (Finite (real (length xs)))
      else case arrayIndexName name of
             Some i \<Rightarrow> if i < length xs then xs ! i else JUndefined
           | None \<Rightarrow> JUndefined)"
| "getProp (JStr s) name =
     (if name = ''length'' then JNum (Finite (real (length s)))
      else case arrayIndexName name of
             Some i \<Rightarrow> if i < length s then JStr [s ! i] else JUndefined
           | None \<Rightarrow> JUndefined)"
| "getProp _ name = JUndefined"

text \<open>The element read \<^verbatim>\<open>xs[i]\<close> of an array with an integer \<open>i\<close>.\<close>

definition getIndex :: "jsval list \<Rightarrow> int \<Rightarrow> jsval" where
  "getIndex xs i = (if 0 \<le> i \<and> nat i < length xs then xs ! nat i else JUndefined)"

section \<open>Template engine\<close>

datatype PathPart = Property string | Index int

datatype PathError =
    MissingClosingBracket
  | InvalidArrayIndex
  | PropertyOfNullish
  | PropertyOfNonObject
  | IndexOnNonArray

text \<open>
  \<^verbatim>\<open>parsePath\<close>: the loop over the characters, with the part being read in \<open>current\<close>.
  At \<^verbatim>\<open>[\<close> the index text runs to the next \<^verbatim>\<open>]\<close>.
\<close>

lemma length_tl_dropWhile_le: "length (tl (dropWhile P xs)) \<le> length xs"
  using length_dropWhile_le [of P xs] by simp


function parsePathLoop :: "string \<Rightarrow> string \<Rightarrow> PathPart list \<Rightarrow> PathError + PathPart list" where
  "parsePathLoop [] current parts =
     Inr (if current \<noteq> [] then parts @ [Property current] else parts)"
| "parsePathLoop (c # rest) current parts =
     (if c = CHR ''.'' then
        parsePathLoop rest [] (if current \<noteq> [] then parts @ [Property current] else parts)
      else if c = CHR ''['' then
        (let parts1 = (if current \<noteq> [] then parts @ [Property current] else parts) in
         if CHR '']'' \<notin> set rest then Inl MissingClosingBracket
         else
           (case parseInt (takeWhile (\<lambda>x. x \<noteq> CHR '']'') rest) of
              None \<Rightarrow> Inl InvalidArrayIndex
            | Some i \<Rightarrow>
                parsePathLoop (tl (dropWhile (\<lambda>x. x \<noteq> CHR '']'') rest)) [] (parts1 @ [Index i])))
      else parsePathLoop rest (current @ [c]) parts)"
  by pat_completeness auto
termination parsePathLoop
  by (relation "measure (\<lambda>(s, current, parts). length s)")
    (auto simp: less_Suc_eq_le length_tl_dropWhile_le simp del: length_tl)

definition parsePath :: "string \<Rightarrow> PathError + PathPart list" where
  "parsePath path = parsePathLoop path [] []"


text \<open>The loop of \<^verbatim>\<open>resolvePath\<close> over the parts, from the value \<open>current\<close>.\<close>

fun resolveParts :: "jsval \<Rightarrow> PathPart list \<Rightarrow> PathError + jsval" where
  "resolveParts current [] = Inr current"
| "resolveParts current (part # parts) =
     (if current = JNull \<or> current = JUndefined then Inl PropertyOfNullish
      else if typeOf current \<noteq> TObject then Inl PropertyOfNonObject
      else case part of
             Property name \<Rightarrow> resolveParts (getProp current name) parts
           | Index i \<Rightarrow>
               (case current of
                  JArr _ xs \<Rightarrow> resolveParts (getIndex xs i) parts
                | _ \<Rightarrow> Inl IndexOnNonArray))"

text \<open>\<^verbatim>\<open>resolvePath\<close>; the context is the \<^verbatim>\<open>TemplateContext\<close> object.\<close>

definition resolvePath :: "string \<Rightarrow> jsval \<Rightarrow> PathError + jsval" where
  "resolvePath path context =
     (case parsePath path of Inl e \<Rightarrow> Inl e | Inr parts \<Rightarrow> resolveParts context parts)"

text \<open>
  \<^verbatim>\<open>JSON.stringify\<close> on the values of the model. \<open>numStr\<close> is the host's conversion of a
  finite number to a string. In an array \<^verbatim>\<open>undefined\<close> prints as \<^verbatim>\<open>null\<close>; in an object a
  member that is \<^verbatim>\<open>undefined\<close> is left out.
\<close>

definition hexDigit :: "nat \<Rightarrow> char" where
  "hexDigit d = (if d < 10 then char_of (48 + d) else char_of (87 + d))"

definition quoteChar :: "char \<Rightarrow> string" where
  "quoteChar c =
     (if c = CHR 0x22 then [CHR 0x5C, CHR 0x22]
      else if c = CHR 0x5C then [CHR 0x5C, CHR 0x5C]
      else if c = CHR 0x08 then [CHR 0x5C, CHR ''b'']
      else if c = CHR 0x0C then [CHR 0x5C, CHR ''f'']
      else if c = CHR 0x0A then [CHR 0x5C, CHR ''n'']
      else if c = CHR 0x0D then [CHR 0x5C, CHR ''r'']
      else if c = CHR 0x09 then [CHR 0x5C, CHR ''t'']
      else if (of_char c :: nat) < 32
        then [CHR 0x5C, CHR ''u'', CHR ''0'', CHR ''0'',
              hexDigit ((of_char c :: nat) div 16), hexDigit ((of_char c :: nat) mod 16)]
      else [c])"

definition quoteJSONString :: "string \<Rightarrow> string" where
  "quoteJSONString s = [CHR 0x22] @ concat (map quoteChar s) @ [CHR 0x22]"

fun stringifyValue :: "(real \<Rightarrow> string) \<Rightarrow> jsval \<Rightarrow> string"
  and stringifyElements :: "(real \<Rightarrow> string) \<Rightarrow> jsval list \<Rightarrow> string list"
  and stringifyMembers :: "(real \<Rightarrow> string) \<Rightarrow> (string \<times> jsval) list \<Rightarrow> string list"
where
  "stringifyValue numStr JUndefined = ''null''"
| "stringifyValue numStr JNull = ''null''"
| "stringifyValue numStr (JBool b) = (if b then ''true'' else ''false'')"
| "stringifyValue numStr (JNum n) = (case n of Finite x \<Rightarrow> numStr x | _ \<Rightarrow> ''null'')"
| "stringifyValue numStr (JStr s) = quoteJSONString s"
| "stringifyValue numStr (JArr _ xs) = ''['' @ join '','' (stringifyElements numStr xs) @ '']''"
| "stringifyValue numStr (JObj _ kvs) = ''{'' @ join '','' (stringifyMembers numStr kvs) @ ''}''"
| "stringifyElements numStr [] = []"
| "stringifyElements numStr (x # xs) = stringifyValue numStr x # stringifyElements numStr xs"
| "stringifyMembers numStr [] = []"
| "stringifyMembers numStr ((k, v) # kvs) =
     (if v = JUndefined then stringifyMembers numStr kvs
      else (quoteJSONString k @ '':'' @ stringifyValue numStr v) # stringifyMembers numStr kvs)"

text \<open>\<^verbatim>\<open>String(n)\<close> for a number.\<close>

definition numberToString :: "(real \<Rightarrow> string) \<Rightarrow> jsnum \<Rightarrow> string" where
  "numberToString numStr n =
     (case n of NaN \<Rightarrow> ''NaN'' | PosInfinity \<Rightarrow> ''Infinity'' | NegInfinity \<Rightarrow> ''-Infinity''
      | Finite x \<Rightarrow> numStr x)"







section \<open>Expression engine\<close>

datatype LogicalOperator = OpAnd | OpOr

datatype Value = Literal jsval | Variable string

datatype Expression =
    Comparison Value ComparisonOperator Value
  | Logical Expression LogicalOperator Expression
  | Not Expression
  | ValueExpr Value

datatype ParseError = UnexpectedEndOfExpression

text \<open>
  \<^verbatim>\<open>tokenize\<close>: the loop over the characters with its four variables; \<open>nextChar\<close> is the
  character after the current one, and an operator of two characters skips it.
  \<open>pushTrimmed\<close> is \<^verbatim>\<open>if (current.trim()) tokens.push(current.trim())\<close>.
\<close>

definition pushTrimmed :: "string list \<Rightarrow> string \<Rightarrow> string list" where
  "pushTrimmed tokens current = (if trim current \<noteq> [] then tokens @ [trim current] else tokens)"

function tokenizeLoop :: "string \<Rightarrow> string list \<Rightarrow> string \<Rightarrow> bool \<Rightarrow> char option \<Rightarrow> string list" where
  "tokenizeLoop [] tokens current inString stringChar = pushTrimmed tokens current"
| "tokenizeLoop (char # rest) tokens current inString stringChar =
     (let nextChar = (case rest of [] \<Rightarrow> None | n # _ \<Rightarrow> Some n) in
      if (char = CHR 0x22 \<or> char = CHR 0x27) \<and> \<not> inString then
        tokenizeLoop rest tokens [char] True (Some char)
      else if Some char = stringChar \<and> inString then
        tokenizeLoop rest (tokens @ [current @ [char]]) [] False stringChar
      else if inString then
        tokenizeLoop rest tokens (current @ [char]) inString stringChar
      else if char = CHR ''&'' \<and> nextChar = Some (CHR ''&'') then
        tokenizeLoop (tl rest) (pushTrimmed tokens current @ [''&&'']) [] inString stringChar
      else if char = CHR ''|'' \<and> nextChar = Some (CHR ''|'') then
        tokenizeLoop (tl rest) (pushTrimmed tokens current @ [''||'']) [] inString stringChar
      else if char = CHR ''='' \<and> nextChar = Some (CHR ''='') then
        tokenizeLoop (tl rest) (pushTrimmed tokens current @ [''=='']) [] inString stringChar
      else if char = CHR ''!'' \<and> nextChar = Some (CHR ''='') then
        tokenizeLoop (tl rest) (pushTrimmed tokens current @ [''!='']) [] inString stringChar
      else if char = CHR ''>'' \<and> nextChar = Some (CHR ''='') then
        tokenizeLoop (tl rest) (pushTrimmed tokens current @ [''>='']) [] inString stringChar
      else if char = CHR ''<'' \<and> nextChar = Some (CHR ''='') then
        tokenizeLoop (tl rest) (pushTrimmed tokens current @ [''<='']) [] inString stringChar
      else if char = CHR ''>'' \<or> char = CHR ''<'' then
        tokenizeLoop rest (pushTrimmed tokens current @ [[char]]) [] inString stringChar
      else if char = CHR ''!'' \<and> nextChar \<noteq> Some (CHR ''='') then
        tokenizeLoop rest (pushTrimmed tokens current @ [''!'']) [] inString stringChar
      else if char = CHR ''('' \<or> char = CHR '')'' then
        tokenizeLoop rest (pushTrimmed tokens current @ [[char]]) [] inString stringChar
      else if char = CHR '' '' \<and> trim current \<noteq> [] then
        tokenizeLoop rest (tokens @ [trim current]) [] inString stringChar
      else if char \<noteq> CHR '' '' then
        tokenizeLoop rest tokens (current @ [char]) inString stringChar
      else tokenizeLoop rest tokens current inString stringChar)"
  by pat_completeness auto
termination tokenizeLoop
  by (relation "measure (\<lambda>(s, tokens, current, inString, stringChar). length s)") auto

definition tokenize :: "string \<Rightarrow> string list" where
  "tokenize expr = tokenizeLoop expr [] [] False None"

text \<open>
  \<^verbatim>\<open>parseValue\<close>. A number token matches \<^verbatim>\<open>/^-?\d+(\.\d+)?$/\<close>; \<^verbatim>\<open>parseFloat\<close> of such a token
  is taken as the exact decimal value (the rounding to a double is not modelled).
  \<^verbatim>\<open>token.slice(1, -1)\<close> drops the first and the last character.
\<close>

definition isNumberToken :: "string \<Rightarrow> bool" where
  "isNumberToken token =
     (let u = (if token \<noteq> [] \<and> hd token = CHR ''-'' then tl token else token);
          ip = takeWhile isDigit u;
          r = dropWhile isDigit u
      in ip \<noteq> [] \<and> (r = [] \<or> (hd r = CHR ''.'' \<and> tl r \<noteq> [] \<and> list_all isDigit (tl r))))"

definition parseFloat :: "string \<Rightarrow> real" where
  "parseFloat token =
     (let neg = (token \<noteq> [] \<and> hd token = CHR ''-'');
          u = (if neg then tl token else token);
          ip = takeWhile isDigit u;
          fp = takeWhile isDigit (tl (dropWhile isDigit u));
          x = real (digitsValue ip) + real (digitsValue fp) / 10 ^ length fp
      in if neg then - x else x)"

definition isStringToken :: "string \<Rightarrow> bool" where
  "isStringToken token =
     (token \<noteq> [] \<and> ((hd token = CHR 0x22 \<and> last token = CHR 0x22)
                      \<or> (hd token = CHR 0x27 \<and> last token = CHR 0x27)))"

definition parseValue :: "string list \<Rightarrow> ParseError + (Value \<times> string list)" where
  "parseValue tokens =
     (case tokens of
        [] \<Rightarrow> Inl UnexpectedEndOfExpression
      | token # rest \<Rightarrow>
          Inr (if isStringToken token then Literal (JStr (butlast (tl token)))
               else if isNumberToken token then Literal (JNum (Finite (parseFloat token)))
               else if token = ''true'' then Literal (JBool True)
               else if token = ''false'' then Literal (JBool False)
               else if token = ''null'' then Literal JNull
               else Variable token,
               rest))"

text \<open>The comparison operators as tokens, \<^verbatim>\<open>comparisonOps.includes(tokens[0])\<close>.\<close>

definition comparisonOp :: "string \<Rightarrow> ComparisonOperator option" where
  "comparisonOp token =
     (if token = ''=='' then Some OpEq
      else if token = ''!='' then Some OpNe
      else if token = ''>='' then Some OpGe
      else if token = ''<='' then Some OpLe
      else if token = ''>'' then Some OpGt
      else if token = ''<'' then Some OpLt
      else if token = ''contains'' then Some OpContains
      else if token = ''startsWith'' then Some OpStartsWith
      else if token = ''endsWith'' then Some OpEndsWith
      else None)"

text \<open>
  The recursive-descent parser. The source consumes one shared token array with
  \<^verbatim>\<open>shift\<close>; here each function returns the tokens it has left. \<open>parseLogicalLoop\<close> is the
  \<^verbatim>\<open>while\<close> loop of \<^verbatim>\<open>parseLogical\<close>.
\<close>

function parseLogical :: "string list \<Rightarrow> ParseError + (Expression \<times> string list)"
  and parseLogicalLoop :: "Expression \<Rightarrow> string list \<Rightarrow> ParseError + (Expression \<times> string list)"
  and parseNot :: "string list \<Rightarrow> ParseError + (Expression \<times> string list)"
  and parseComparison :: "string list \<Rightarrow> ParseError + (Expression \<times> string list)"
where
  "parseLogical tokens =
     (case parseNot tokens of
        Inl e \<Rightarrow> Inl e
      | Inr (left, rest) \<Rightarrow> parseLogicalLoop left rest)"
| "parseLogicalLoop left tokens =
     (if tokens \<noteq> [] \<and> (hd tokens = ''&&'' \<or> hd tokens = ''||'') then
        (case parseNot (tl tokens) of
           Inl e \<Rightarrow> Inl e
         | Inr (right, rest) \<Rightarrow>
             parseLogicalLoop
               (Logical left (if hd tokens = ''&&'' then OpAnd else OpOr) right) rest)
      else Inr (left, tokens))"
| "parseNot tokens =
     (if tokens \<noteq> [] \<and> hd tokens = ''!'' then
        (case parseComparison (tl tokens) of
           Inl e \<Rightarrow> Inl e
         | Inr (expression, rest) \<Rightarrow> Inr (Not expression, rest))
      else parseComparison tokens)"
| "parseComparison tokens =
     (if tokens \<noteq> [] \<and> hd tokens = ''('' then
        (case parseLogical (tl tokens) of
           Inl e \<Rightarrow> Inl e
         | Inr (expr, rest) \<Rightarrow>
             if rest \<noteq> [] \<and> hd rest = '')'' then Inr (expr, tl rest) else Inr (expr, rest))
      else
        (case parseValue tokens of
           Inl e \<Rightarrow> Inl e
         | Inr (left, rest) \<Rightarrow>
             (case (if rest \<noteq> [] then comparisonOp (hd rest) else None) of
                Some operator \<Rightarrow>
                  (case parseValue (tl rest) of
                     Inl e \<Rightarrow> Inl e
                   | Inr (right, rest') \<Rightarrow> Inr (Comparison left operator right, rest'))
              | None \<Rightarrow> Inr (ValueExpr left, rest))))"
  by pat_completeness auto

text \<open>
  The parser terminates: every call that returns has consumed tokens, so the tokens left
  never grow.
\<close>

lemma parseValue_shorter:
  "parseValue tokens = Inr (v, rest) \<Longrightarrow> length rest < length tokens"
  by (auto simp: parseValue_def split: list.splits)

lemma parse_rest_le_dom:
  "parseLogical_parseLogicalLoop_parseNot_parseComparison_dom (Inl (Inl tokens)) \<Longrightarrow>
     parseLogical tokens = Inr (e, rest) \<Longrightarrow> length rest \<le> length tokens"
  "parseLogical_parseLogicalLoop_parseNot_parseComparison_dom (Inl (Inr (left, tokens))) \<Longrightarrow>
     parseLogicalLoop left tokens = Inr (e, rest) \<Longrightarrow> length rest \<le> length tokens"
  "parseLogical_parseLogicalLoop_parseNot_parseComparison_dom (Inr (Inl tokens)) \<Longrightarrow>
     parseNot tokens = Inr (e, rest) \<Longrightarrow> length rest \<le> length tokens"
  "parseLogical_parseLogicalLoop_parseNot_parseComparison_dom (Inr (Inr tokens)) \<Longrightarrow>
     parseComparison tokens = Inr (e, rest) \<Longrightarrow> length rest \<le> length tokens"
proof (induction tokens and left tokens and tokens and tokens arbitrary: e rest and e rest and e rest and e rest
    rule: parseLogical_parseLogicalLoop_parseNot_parseComparison.pinduct)
  case (1 tokens)
  then show ?case
    by (fastforce simp: parseLogical.psimps split: sum.splits prod.splits)
next
  case (2 left tokens)
  show ?case
  proof (cases "tokens \<noteq> [] \<and> (hd tokens = ''&&'' \<or> hd tokens = ''||'')")
    case True
    with "2.prems" "2.hyps" obtain right rest1 where
      pn: "parseNot (tl tokens) = Inr (right, rest1)"
      and pl: "parseLogicalLoop (Logical left (if hd tokens = ''&&'' then OpAnd else OpOr) right) rest1 = Inr (e, rest)"
      by (auto simp: parseLogicalLoop.psimps split: sum.splits prod.splits)
    from "2.IH"(1) [OF True pn] have "length rest1 \<le> length (tl tokens)" .
    moreover from "2.IH"(2) [OF True pn refl pl] have "length rest \<le> length rest1" .
    ultimately show ?thesis by simp
  next
    case False
    with "2.prems" "2.hyps" show ?thesis
      by (auto simp: parseLogicalLoop.psimps)
  qed
next
  case (3 tokens)
  show ?case
  proof (cases "tokens \<noteq> [] \<and> hd tokens = ''!''")
    case True
    with "3.prems" "3.hyps" obtain ex where "parseComparison (tl tokens) = Inr (ex, rest)"
      by (auto simp: parseNot.psimps split: sum.splits prod.splits)
    from "3.IH"(1) [OF True this] show ?thesis by simp
  next
    case False
    with "3.prems" "3.hyps" have "parseComparison tokens = Inr (e, rest)"
      by (auto simp: parseNot.psimps)
    from "3.IH"(2) [OF False this] show ?thesis .
  qed
next
  case (4 tokens)
  show ?case
  proof (cases "tokens \<noteq> [] \<and> hd tokens = ''(''")
    case True
    with "4.prems" "4.hyps" obtain ex rest1 where
      pl: "parseLogical (tl tokens) = Inr (ex, rest1)"
      and r: "rest = (if rest1 \<noteq> [] \<and> hd rest1 = '')'' then tl rest1 else rest1)"
      by (auto simp: parseComparison.psimps split: sum.splits prod.splits if_splits)
    from "4.IH" [OF True pl] have "length rest1 \<le> length (tl tokens)" .
    with r show ?thesis by (auto split: if_splits)
  next
    case False
    with "4.prems" "4.hyps" show ?thesis
      by (auto simp: parseComparison.psimps split: sum.splits prod.splits option.splits if_splits
          dest!: parseValue_shorter)
  qed
qed


termination parseLogical
  apply (relation "inv_image (less_than <*lex*> less_than)
    (\<lambda>x. case x of
        Inl (Inl tokens) \<Rightarrow> (length tokens, 3::nat)
      | Inl (Inr (left, tokens)) \<Rightarrow> (length tokens, 0)
      | Inr (Inl tokens) \<Rightarrow> (length tokens, 2)
      | Inr (Inr tokens) \<Rightarrow> (length tokens, 1))")
  subgoal by (intro wf_inv_image wf_lex_prod wf_less_than)
  subgoal by simp
  subgoal for tokens x left rest
    using parse_rest_le_dom(3) [of tokens left rest] by auto
  subgoal for left tokens
    by (cases tokens) auto
  subgoal for left tokens x right rest
    using parse_rest_le_dom(3) [of "tl tokens" right rest] by (cases tokens) auto
  subgoal for tokens
    by (cases tokens) auto
  subgoal by simp
  subgoal for tokens
    by (cases tokens) auto
  done


declare parseLogical.simps [simp del] parseLogicalLoop.simps [simp del]
  parseNot.simps [simp del] parseComparison.simps [simp del]

definition parseExpression :: "string \<Rightarrow> ParseError + Expression" where
  "parseExpression expr =
     (case parseLogical (tokenize expr) of Inl e \<Rightarrow> Inl e | Inr (ast, rest) \<Rightarrow> Inr ast)"

text \<open>\<^verbatim>\<open>resolveValue\<close>: a path that cannot be resolved is \<^verbatim>\<open>undefined\<close>.\<close>

fun resolveValue :: "Value \<Rightarrow> jsval \<Rightarrow> jsval" where
  "resolveValue (Literal v) context = v"
| "resolveValue (Variable path) context =
     (case resolvePath path context of Inr v \<Rightarrow> v | Inl e \<Rightarrow> JUndefined)"

text \<open>\<^verbatim>\<open>evaluateNode\<close>; both sides of a logical node are evaluated.\<close>

fun evaluateNode :: "Expression \<Rightarrow> jsval \<Rightarrow> bool" where
  "evaluateNode (Comparison left operator right) context =
     evaluateComparison (resolveValue left context) operator (resolveValue right context)"
| "evaluateNode (Logical left operator right) context =
     (let l = evaluateNode left context; r = evaluateNode right context
      in case operator of OpAnd \<Rightarrow> l \<and> r | OpOr \<Rightarrow> l \<or> r)"
| "evaluateNode (Not expression) context = (\<not> evaluateNode expression context)"
| "evaluateNode (ValueExpr v) context = truthy (resolveValue v context)"

text \<open>\<^verbatim>\<open>evaluateExpression\<close>: whatever is thrown while parsing or evaluating gives \<^verbatim>\<open>false\<close>.\<close>

definition evaluateExpression :: "string \<Rightarrow> jsval \<Rightarrow> bool" where
  "evaluateExpression expression context =
     (case parseExpression expression of
        Inl e \<Rightarrow> False
      | Inr ast \<Rightarrow> evaluateNode ast context)"

text \<open>
  The \<^verbatim>\<open>TemplateContext\<close> object: its three members, and the reference of the object
  itself.
\<close>

definition templateContext :: "nat \<Rightarrow> jsval \<Rightarrow> jsval \<Rightarrow> jsval \<Rightarrow> jsval" where
  "templateContext r input steps context =
     JObj r [(''input'', input), (''steps'', steps), (''context'', context)]"

section \<open>Example contexts\<close>

text \<open>
  The contexts of the specification's examples, and a number conversion for closed
  examples: the decimal numeral of the integral part, which is \<^verbatim>\<open>String(x)\<close> for an
  integral \<open>x\<close> below \<^verbatim>\<open>1e21\<close> in magnitude.
\<close>

definition showIntegral :: "real \<Rightarrow> string" where
  "showIntegral x = showInt \<lfloor>x\<rfloor>"




definition scoreContext :: jsval where
  "scoreContext =
     templateContext 0 (JObj 1 [(''score'', JNum (Finite 0.85)), (''count'', JNum (Finite 5))])
       (JObj 2 []) (JObj 3 [])"

section \<open>Workflow model\<close>

text \<open>
  The fields of \<^verbatim>\<open>WorkflowStepSchema\<close> and \<^verbatim>\<open>WorkflowSchema\<close> that the validator and the
  executor read. \<^verbatim>\<open>id\<close> and \<^verbatim>\<open>type\<close> are \<open>step_id\<close> and \<open>step_type\<close>. An optional
  string is a \<open>string option\<close>; JavaScript treats both \<^verbatim>\<open>undefined\<close> and the empty
  string as false in a condition. \<open>params\<close> is the parameter bag seen through
  \<^verbatim>\<open>Partial<ConditionStepParams>\<close>: its \<open>onTrue\<close> and \<open>onFalse\<close> members, and the other
  members as one value. \<open>maxSteps\<close>, \<open>maxAttempts\<close> and the delays are whole numbers; a
  limit of \<^verbatim>\<open>Infinity\<close> or \<^verbatim>\<open>NaN\<close>, which bounds nothing, is outside the model.
\<close>

record RetryConfig =
  maxAttempts :: int
  backoffMs :: int

record StepParams =
  onTrue :: "string option"
  onFalse :: "string option"
  otherParams :: jsval

record WorkflowStep =
  step_id :: string
  step_type :: string
  params :: StepParams
  nextStepId :: "string option"
  onSuccess :: "string option"
  onFailure :: "string option"
  retry :: "RetryConfig option"

record Workflow =
  workflow_id :: string
  version :: int
  entryStepId :: string
  steps :: "WorkflowStep list"
  maxExecutionTimeMs :: "int option"
  maxSteps :: int

text \<open>The truth value of an optional string in a condition.\<close>

definition truthyStr :: "string option \<Rightarrow> bool" where
  "truthyStr v = (case v of None \<Rightarrow> False | Some s \<Rightarrow> s \<noteq> [])"

text \<open>\<^verbatim>\<open>if (v) nextSteps.push(v)\<close>.\<close>

definition pushIf :: "string option \<Rightarrow> string list" where
  "pushIf v = (case v of None \<Rightarrow> [] | Some s \<Rightarrow> if s \<noteq> [] then [s] else [])"

text \<open>\<^verbatim>\<open>workflow.steps.find(s => s.id === stepId)\<close>: the first step with that id.\<close>

definition findStep :: "Workflow \<Rightarrow> string \<Rightarrow> WorkflowStep option" where
  "findStep w stepId = find (\<lambda>s. step_id s = stepId) (steps w)"

section \<open>Workflow validator\<close>

text \<open>
  The outgoing references of a step, in the order in which \<^verbatim>\<open>detectCircularReferences\<close>
  and \<^verbatim>\<open>findReachableSteps\<close> collect them (the two functions repeat the same code).
\<close>

definition nextSteps :: "WorkflowStep \<Rightarrow> string list" where
  "nextSteps step =
     pushIf (nextStepId step) @ pushIf (onSuccess step) @ pushIf (onFailure step)
     @ (if step_type step = ''CONDITION''
        then pushIf (onTrue (params step)) @ pushIf (onFalse (params step)) else [])"

text \<open>
  \<^verbatim>\<open>detectCircularReferences\<close>: the closure \<^verbatim>\<open>dfs\<close> mutates the two sets and the list of
  cycle paths, which are the state passed through here; \<open>dfsEach\<close> is its loop over
  \<^verbatim>\<open>nextSteps\<close>.
\<close>

record DfsState =
  visited :: "string set"
  recursionStack :: "string set"
  circular :: "string list"

function dfs :: "Workflow \<Rightarrow> string \<Rightarrow> string list \<Rightarrow> DfsState \<Rightarrow> DfsState"
  and dfsEach :: "Workflow \<Rightarrow> string list \<Rightarrow> string list \<Rightarrow> DfsState \<Rightarrow> DfsState"
where
  "dfs w stepId path st =
     (if stepId \<in> recursionStack st
      then st\<lparr>circular := circular st @ [join '' -> '' (path @ [stepId])]\<rparr>
      else if stepId \<in> visited st then st
      else
        let st1 = st\<lparr>visited := insert stepId (visited st),
                      recursionStack := insert stepId (recursionStack st)\<rparr>;
            st2 = (case findStep w stepId of
                     None \<Rightarrow> st1
                   | Some step \<Rightarrow> dfsEach w (nextSteps step) (path @ [stepId]) st1)
        in st2\<lparr>recursionStack := recursionStack st2 - {stepId}\<rparr>)"
| "dfsEach w [] path st = st"
| "dfsEach w (n # ns) path st = dfsEach w ns path (dfs w n path st)"
  by pat_completeness auto

text \<open>The traversal terminates: every call that descends marks a new step as visited.\<close>

lemma dfs_visited_mono_dom:
  "dfs_dfsEach_dom (Inl (w, stepId, path, st)) \<Longrightarrow> visited st \<subseteq> visited (dfs w stepId path st)"
  "dfs_dfsEach_dom (Inr (w, ns, path, st)) \<Longrightarrow> visited st \<subseteq> visited (dfsEach w ns path st)"
proof (induction w stepId path st and w ns path st rule: dfs_dfsEach.pinduct)
  case (1 w stepId path st)
  then show ?case
    by (auto simp: dfs.psimps Let_def split: option.splits)
next
  case (2 w path st)
  then show ?case by (simp add: dfsEach.psimps)
next
  case (3 w n ns path st)
  then show ?case by (auto simp: dfsEach.psimps)
qed

lemma findStep_Some_id: "findStep w x = Some s \<Longrightarrow> x \<in> step_id ` set (steps w)"
  unfolding findStep_def by (auto simp: find_Some_iff)

termination dfs
  apply (relation "inv_image (less_than <*lex*> less_than)
    (\<lambda>x. case x of
        Inl (w, stepId, path, st) \<Rightarrow> (card (step_id ` set (steps w) - visited st), 0::nat)
      | Inr (w, ns, path, st) \<Rightarrow> (card (step_id ` set (steps w) - visited st), Suc (length ns)))")
  subgoal by (intro wf_inv_image wf_lex_prod wf_less_than)
  subgoal for w stepId path st x step
    using findStep_Some_id [of w stepId step]
      psubset_card_mono [of "step_id ` set (steps w) - visited st" "step_id ` set (steps w) - insert stepId (visited st)"]
    by auto
  subgoal by simp
  subgoal for w n ns path st
  proof -
    assume "dfs_dfsEach_dom (Inl (w, n, path, st))"
    then have "visited st \<subseteq> visited (dfs w n path st)"
      by (rule dfs_visited_mono_dom(1))
    then have "step_id ` set (steps w) - visited (dfs w n path st)
        \<subseteq> step_id ` set (steps w) - visited st"
      by blast
    then have "card (step_id ` set (steps w) - visited (dfs w n path st))
        \<le> card (step_id ` set (steps w) - visited st)"
      by (intro card_mono) simp_all
    then show ?thesis by auto
  qed
  done

declare dfs.simps [simp del]

definition detectCircularReferences :: "Workflow \<Rightarrow> string list" where
  "detectCircularReferences w =
     circular (dfs w (entryStepId w) [] \<lparr>visited = {}, recursionStack = {}, circular = []\<rparr>)"

text \<open>
  \<^verbatim>\<open>findReachableSteps\<close>: the loop over the queue, with \<^verbatim>\<open>queue.shift()\<close> taking the head.
  \<open>stepTargets\<close> is only used to show that the loop terminates.
\<close>

definition stepTargets :: "Workflow \<Rightarrow> string set" where
  "stepTargets w = (\<Union>s \<in> set (steps w). set (nextSteps s))"

function findReachableLoop :: "Workflow \<Rightarrow> string list \<Rightarrow> string set \<Rightarrow> string set" where
  "findReachableLoop w [] reachable = reachable"
| "findReachableLoop w (stepId # queue) reachable =
     (if stepId \<in> reachable then findReachableLoop w queue reachable
      else findReachableLoop w
             (queue @ (case findStep w stepId of None \<Rightarrow> [] | Some step \<Rightarrow> nextSteps step))
             (insert stepId reachable))"
  by pat_completeness auto

lemma findStep_Some_mem: "findStep w x = Some s \<Longrightarrow> s \<in> set (steps w)"
  unfolding findStep_def by (auto simp: find_Some_iff)

termination findReachableLoop
  apply (relation "inv_image (less_than <*lex*> less_than)
    (\<lambda>(w, queue, reachable). (card ((set queue \<union> stepTargets w) - reachable), length queue))")
  subgoal by (intro wf_inv_image wf_lex_prod wf_less_than)
  subgoal for w stepId queue reachable
  proof -
    have "(set queue \<union> stepTargets w) - reachable
        \<subseteq> (set (stepId # queue) \<union> stepTargets w) - reachable"
      by auto
    then have "card ((set queue \<union> stepTargets w) - reachable)
        \<le> card ((set (stepId # queue) \<union> stepTargets w) - reachable)"
      by (intro card_mono) (simp_all add: stepTargets_def)
    then show ?thesis by auto
  qed
  subgoal for w stepId queue reachable
  proof -
    assume new: "stepId \<notin> reachable"
    let ?next = "case findStep w stepId of None \<Rightarrow> [] | Some step \<Rightarrow> nextSteps step"
    have "set ?next \<subseteq> stepTargets w"
      by (cases "findStep w stepId") (auto simp: stepTargets_def dest: findStep_Some_mem)
    with new have "(set (queue @ ?next) \<union> stepTargets w) - insert stepId reachable
        \<subset> (set (stepId # queue) \<union> stepTargets w) - reachable"
      by auto
    then have "card ((set (queue @ ?next) \<union> stepTargets w) - insert stepId reachable)
        < card ((set (stepId # queue) \<union> stepTargets w) - reachable)"
      by (intro psubset_card_mono) (simp_all add: stepTargets_def)
    then show ?thesis by simp
  qed
  done

definition findReachableSteps :: "Workflow \<Rightarrow> string set" where
  "findReachableSteps w = findReachableLoop w [entryStepId w] {}"


record ValidationResult =
  valid :: bool
  isValid :: bool
  errors :: "string list"
  warnings :: "string list"

text \<open>
  The first loop of \<^verbatim>\<open>validate\<close>: \<open>stepIds\<close> is a \<^verbatim>\<open>Set\<close> (here the list of its members in
  insertion order), \<open>duplicateIds\<close> the ids met a second time.
\<close>

fun collectStepIds :: "WorkflowStep list \<Rightarrow> string list \<times> string list \<Rightarrow> string list \<times> string list" where
  "collectStepIds [] acc = acc"
| "collectStepIds (step # rest) (stepIds, duplicateIds) =
     collectStepIds rest
       (if step_id step \<in> set stepIds then (stepIds, duplicateIds @ [step_id step])
        else (stepIds @ [step_id step], duplicateIds))"

text \<open>
  The body of the second loop: the reference errors of one step; \<open>stepIds\<close> is the set
  that \<^verbatim>\<open>stepIds.has\<close> tests.
\<close>

definition stepReferenceErrors :: "string set \<Rightarrow> WorkflowStep \<Rightarrow> string list" where
  "stepReferenceErrors stepIds step =
     (case nextStepId step of
        Some n \<Rightarrow> if n \<noteq> [] \<and> n \<notin> stepIds
                  then [''Step '' @ [CHR 0x27] @ step_id step @ [CHR 0x27] @ '' references non-existent next step ''
                        @ [CHR 0x27] @ n @ [CHR 0x27]] else []
      | None \<Rightarrow> [])
     @ (case onSuccess step of
        Some n \<Rightarrow> if n \<noteq> [] \<and> n \<notin> stepIds
                  then [''Step '' @ [CHR 0x27] @ step_id step @ [CHR 0x27] @ '' references non-existent onSuccess step ''
                        @ [CHR 0x27] @ n @ [CHR 0x27]] else []
      | None \<Rightarrow> [])
     @ (case onFailure step of
        Some n \<Rightarrow> if n \<noteq> [] \<and> n \<notin> stepIds
                  then [''Step '' @ [CHR 0x27] @ step_id step @ [CHR 0x27] @ '' references non-existent onFailure step ''
                        @ [CHR 0x27] @ n @ [CHR 0x27]] else []
      | None \<Rightarrow> [])
     @ (if step_type step = ''CONDITION'' then
          (case onTrue (params step) of
             Some n \<Rightarrow> if n \<noteq> [] \<and> n \<notin> stepIds
                       then [''Condition step '' @ [CHR 0x27] @ step_id step @ [CHR 0x27]
                             @ '' references non-existent onTrue step '' @ [CHR 0x27] @ n @ [CHR 0x27]] else []
           | None \<Rightarrow> [])
          @ (case onFalse (params step) of
             Some n \<Rightarrow> if n \<noteq> [] \<and> n \<notin> stepIds
                       then [''Condition step '' @ [CHR 0x27] @ step_id step @ [CHR 0x27]
                             @ '' references non-existent onFalse step '' @ [CHR 0x27] @ n @ [CHR 0x27]] else []
           | None \<Rightarrow> [])
        else [])"

text \<open>\<^verbatim>\<open>WorkflowValidator.validate\<close>; each \<open>errors\<close>\<open>\<^sub>i\<close> is \<^verbatim>\<open>errors\<close> after one more check.\<close>

definition validate :: "Workflow \<Rightarrow> ValidationResult" where
  "validate workflow =
     (if steps workflow = [] then
        \<lparr>valid = False, isValid = False,
         errors = [''Workflow must have at least one step''], warnings = []\<rparr>
      else
        let errors1 =
              (if int (length (steps workflow)) > maxSteps workflow
               then [''Workflow exceeds maximum allowed steps ('' @ showInt (maxSteps workflow) @ '')'']
               else []);
            (stepIds, duplicateIds) = collectStepIds (steps workflow) ([], []);
            errors2 = errors1 @
              (if length duplicateIds > 0
               then [''Duplicate step IDs found: '' @ join '', '' duplicateIds] else []);
            errors3 = errors2 @
              (if entryStepId workflow \<notin> set stepIds
               then [''Entry step '' @ [CHR 0x27] @ entryStepId workflow @ [CHR 0x27]
                     @ '' referenced by entryStepId not found in workflow steps''] else []);
            errors4 = errors3 @ concat (map (stepReferenceErrors (set stepIds)) (steps workflow));
            circularPaths = detectCircularReferences workflow;
            errors5 = errors4 @
              (if length circularPaths > 0
               then [''circular references detected: '' @ join '', '' circularPaths] else []);
            reachableSteps = findReachableSteps workflow;
            unreachableSteps = filter (\<lambda>i. i \<notin> reachableSteps) stepIds;
            errors6 = errors5 @
              (if length unreachableSteps > 0
               then [''unreachable steps found: '' @ join '', '' unreachableSteps] else []);
            isValid = (length errors6 = 0)
        in \<lparr>valid = isValid, isValid = isValid, errors = errors6, warnings = []\<rparr>)"

section \<open>The step graph and the validator's checks, stated on their own\<close>






text \<open>
  The six checks of the specification, each as a function of the workflow alone.
  \<open>firstsFrom\<close> and \<open>duplicatesFrom\<close> split a list of ids into first and repeated
  occurrences.
\<close>

fun firstsFrom :: "string set \<Rightarrow> string list \<Rightarrow> string list" where
  "firstsFrom seen [] = []"
| "firstsFrom seen (x # xs) = (if x \<in> seen then [] else [x]) @ firstsFrom (insert x seen) xs"

fun duplicatesFrom :: "string set \<Rightarrow> string list \<Rightarrow> string list" where
  "duplicatesFrom seen [] = []"
| "duplicatesFrom seen (x # xs) = (if x \<in> seen then [x] else []) @ duplicatesFrom (insert x seen) xs"

definition stepCountErrors :: "Workflow \<Rightarrow> string list" where
  "stepCountErrors w =
     (if steps w = [] then [''Workflow must have at least one step''] else [])
     @ (if int (length (steps w)) > maxSteps w
        then [''Workflow exceeds maximum allowed steps ('' @ showInt (maxSteps w) @ '')''] else [])"

definition duplicateIdErrors :: "Workflow \<Rightarrow> string list" where
  "duplicateIdErrors w =
     (let d = duplicatesFrom {} (map step_id (steps w))
      in if d = [] then [] else [''Duplicate step IDs found: '' @ join '', '' d])"

definition entryStepErrors :: "Workflow \<Rightarrow> string list" where
  "entryStepErrors w =
     (if entryStepId w \<in> step_id ` set (steps w) then []
      else [''Entry step '' @ [CHR 0x27] @ entryStepId w @ [CHR 0x27]
            @ '' referenced by entryStepId not found in workflow steps''])"

definition referenceErrors :: "Workflow \<Rightarrow> string list" where
  "referenceErrors w = concat (map (stepReferenceErrors (step_id ` set (steps w))) (steps w))"

definition cycleErrors :: "Workflow \<Rightarrow> string list" where
  "cycleErrors w =
     (if detectCircularReferences w = [] then []
      else [''circular references detected: '' @ join '', '' (detectCircularReferences w)])"

definition unreachableErrors :: "Workflow \<Rightarrow> string list" where
  "unreachableErrors w =
     (let u = filter (\<lambda>i. i \<notin> findReachableSteps w) (firstsFrom {} (map step_id (steps w)))
      in if u = [] then [] else [''unreachable steps found: '' @ join '', '' u])"

definition allCheckErrors :: "Workflow \<Rightarrow> string list" where
  "allCheckErrors w =
     stepCountErrors w @ duplicateIdErrors w @ entryStepErrors w @ referenceErrors w
     @ cycleErrors w @ unreachableErrors w"

text \<open>Example workflows, after the validator's unit tests.\<close>

definition linearStep :: "string \<Rightarrow> string option \<Rightarrow> WorkflowStep" where
  "linearStep i n =
     \<lparr>step_id = i, step_type = ''LLM'',
      params = \<lparr>onTrue = None, onFalse = None, otherParams = JUndefined\<rparr>,
      nextStepId = n, onSuccess = None, onFailure = None, retry = None\<rparr>"

definition cyclicWorkflow :: Workflow where
  "cyclicWorkflow =
     \<lparr>workflow_id = ''wf_test'', version = 1, entryStepId = ''s01'',
      steps = [linearStep ''s01'' (Some ''s02''), linearStep ''s02'' (Some ''s01'')],
      maxExecutionTimeMs = None, maxSteps = 100\<rparr>"

definition emptyWorkflow :: Workflow where
  "emptyWorkflow =
     \<lparr>workflow_id = ''wf_test'', version = 1, entryStepId = ''s01'', steps = [],
      maxExecutionTimeMs = None, maxSteps = 100\<rparr>"

section \<open>Execution record\<close>

text \<open>
  \<^verbatim>\<open>WorkflowExecutionSchema\<close> and its step entries. A \<^verbatim>\<open>Date\<close> is its time in milliseconds.
  The members \<^verbatim>\<open>id\<close>, \<^verbatim>\<open>status\<close>, \<^verbatim>\<open>error\<close>, \<^verbatim>\<open>startedAt\<close>, \<^verbatim>\<open>completedAt\<close> and
  \<^verbatim>\<open>durationMs\<close> of the execution are \<open>execId\<close>, \<open>runStatus\<close>, \<open>runError\<close>, \<open>runStartedAt\<close>,
  \<open>runCompletedAt\<close> and \<open>runDurationMs\<close>; the plain names are those of a step entry, whose
  \<^verbatim>\<open>output\<close> is \<open>outputV\<close>. The
  aliases \<^verbatim>\<open>steps\<close>, \<^verbatim>\<open>output\<close>, ... of the execution repeat other members and are left out,
  as are \<^verbatim>\<open>stack\<close> and the members no function writes.
\<close>

datatype StepStatus = StepPending | StepRunning | StepCompleted | StepFailed | StepSkipped

datatype ExecutionStatus = Pending | Running | Completed | Failed | Timeout | Cancelled

record StepExecution =
  stepId :: string
  stepType :: string
  status :: StepStatus
  outputV :: jsval
  error :: "string option"
  startedAt :: "int option"
  completedAt :: "int option"
  durationMs :: jsval
  retryCount :: int

record Metrics =
  stepsExecuted :: nat
  llmCallCount :: jsnum
  ragQueryCount :: jsnum
  totalTokensUsed :: jsnum

record ExecutionError =
  message :: string
  code :: string

record WorkflowExecution =
  execId :: string
  workflowId :: string
  workflowVersion :: int
  organizationId :: string
  subOrganizationId :: "string option"
  inputPayload :: jsval
  outputPayload :: jsval
  runStatus :: ExecutionStatus
  runError :: "ExecutionError option"
  runStartedAt :: "int option"
  runCompletedAt :: "int option"
  runDurationMs :: "int option"
  stepExecutions :: "StepExecution list"
  metrics :: Metrics

text \<open>
  What is thrown: an \<^verbatim>\<open>Error\<close> object with its name and message, or any other value.
\<close>

datatype Thrown = ErrorObject string string | NonError jsval

text \<open>
  \<^verbatim>\<open>createWorkflowExecution\<close>; the generated id is an argument. \<^verbatim>\<open>WorkflowExecutionSchema.parse\<close>
  throws a \<^verbatim>\<open>ZodError\<close> unless the input payload is an object (its message is the
  schema library's); the other members it checks have their types here.
  \<open>initialExecution\<close> is the record it returns otherwise.
\<close>

definition isRecordObject :: "jsval \<Rightarrow> bool" where
  "isRecordObject v = (case v of JObj _ _ \<Rightarrow> True | _ \<Rightarrow> False)"

definition initialExecution ::
  "string \<Rightarrow> string \<Rightarrow> int \<Rightarrow> string \<Rightarrow> jsval \<Rightarrow> string option \<Rightarrow> WorkflowExecution" where
  "initialExecution newId wfId wfVersion orgId payload subOrgId =
     \<lparr>execId = newId, workflowId = wfId, workflowVersion = wfVersion, organizationId = orgId,
      subOrganizationId = subOrgId, inputPayload = payload, outputPayload = JUndefined,
      runStatus = Pending, runError = None, runStartedAt = None, runCompletedAt = None,
      runDurationMs = None, stepExecutions = [],
      metrics = \<lparr>stepsExecuted = 0, llmCallCount = Finite 0, ragQueryCount = Finite 0,
                 totalTokensUsed = Finite 0\<rparr>\<rparr>"

definition createWorkflowExecution ::
  "string \<Rightarrow> string \<Rightarrow> int \<Rightarrow> string \<Rightarrow> jsval \<Rightarrow> string option \<Rightarrow> Thrown + WorkflowExecution" where
  "createWorkflowExecution newId wfId wfVersion orgId payload subOrgId =
     (if isRecordObject payload
      then Inr (initialExecution newId wfId wfVersion orgId payload subOrgId)
      else Inl (ErrorObject ''ZodError'' ''inputPayload: Expected object''))"

text \<open>\<^verbatim>\<open>addStepExecution\<close>: a new entry, pending, at the end of the list.\<close>

definition newStepExecution :: "string \<Rightarrow> string \<Rightarrow> StepExecution" where
  "newStepExecution sid stype =
     \<lparr>stepId = sid, stepType = stype, status = StepPending, outputV = JUndefined, error = None,
      startedAt = None, completedAt = None, durationMs = JUndefined, retryCount = 0\<rparr>"

definition addStepExecution :: "WorkflowExecution \<Rightarrow> string \<Rightarrow> string \<Rightarrow> WorkflowExecution" where
  "addStepExecution ex sid stype =
     ex\<lparr>stepExecutions := stepExecutions ex @ [newStepExecution sid stype]\<rparr>"

text \<open>
  The \<^verbatim>\<open>updates\<close> object of \<^verbatim>\<open>updateStepExecution\<close> is the list of its members in
  order; \<^verbatim>\<open>Object.assign\<close> copies each, also one whose value is \<^verbatim>\<open>undefined\<close>.
\<close>

datatype StepExecutionUpdate =
    SetStatus StepStatus
  | SetOutput jsval
  | SetError "string option"
  | SetStartedAt int
  | SetCompletedAt int
  | SetDurationMs jsval

fun assignMember :: "StepExecution \<Rightarrow> StepExecutionUpdate \<Rightarrow> StepExecution" where
  "assignMember se (SetStatus v) = se\<lparr>status := v\<rparr>"
| "assignMember se (SetOutput v) = se\<lparr>outputV := v\<rparr>"
| "assignMember se (SetError v) = se\<lparr>error := v\<rparr>"
| "assignMember se (SetStartedAt v) = se\<lparr>startedAt := Some v\<rparr>"
| "assignMember se (SetCompletedAt v) = se\<lparr>completedAt := Some v\<rparr>"
| "assignMember se (SetDurationMs v) = se\<lparr>durationMs := v\<rparr>"

definition objectAssign :: "StepExecution \<Rightarrow> StepExecutionUpdate list \<Rightarrow> StepExecution" where
  "objectAssign se updates = foldl assignMember se updates"

text \<open>\<^verbatim>\<open>Array.prototype.findIndex\<close>; \<open>None\<close> is \<^verbatim>\<open>-1\<close>.\<close>

fun findIndex :: "('a \<Rightarrow> bool) \<Rightarrow> 'a list \<Rightarrow> nat option" where
  "findIndex P [] = None"
| "findIndex P (x # xs) =
     (if P x then Some 0 else case findIndex P xs of None \<Rightarrow> None | Some i \<Rightarrow> Some (Suc i))"

text \<open>\<^verbatim>\<open>updateStepExecution\<close>.\<close>

definition updateStepExecution ::
  "WorkflowExecution \<Rightarrow> string \<Rightarrow> StepExecutionUpdate list \<Rightarrow> WorkflowExecution" where
  "updateStepExecution ex sid updates =
     (case findIndex (\<lambda>se. stepId se = sid) (stepExecutions ex) of
        None \<Rightarrow> ex
      | Some index \<Rightarrow>
          ex\<lparr>stepExecutions :=
               (stepExecutions ex)[index := objectAssign (stepExecutions ex ! index) updates]\<rparr>)"

section \<open>Step handlers and the environment of a run\<close>

record StepResult =
  success :: bool
  resultOutput :: jsval
  metadata :: jsval
  resultError :: "string option"

record StepOutput =
  stepOutput :: jsval
  stepMetadata :: jsval

text \<open>
  The executor's \<^verbatim>\<open>TemplateContext\<close>: the input, the outputs of the steps by step id, and
  the constants of the execution.
\<close>

record ContextConstants =
  cWorkflowId :: string
  cExecutionId :: string
  cOrganizationId :: string
  cSubOrganizationId :: "string option"

record TemplateContext =
  ctxInput :: jsval
  ctxSteps :: "string \<rightharpoonup> StepOutput"
  ctxContext :: ContextConstants

record StepExecutionContext =
  scOrganizationId :: string
  scSubOrganizationId :: "string option"
  scWorkflowId :: string
  scExecutionId :: string
  scTemplateContext :: TemplateContext

record ExecutionOptions =
  optMaxSteps :: "int option"
  optTimeoutMs :: "int option"

text \<open>
  A handler is code from outside the engine. \<open>'w\<close> is the state of the world that
  handlers work on; \<^verbatim>\<open>validateParams\<close> throws or returns, \<^verbatim>\<open>execute\<close> (here
  \<open>executeHandler\<close>) changes the world and returns a result or throws. A call is assumed
  to return.
\<close>

record 'w StepHandler =
  validateParams :: "StepParams \<Rightarrow> Thrown option"
  executeHandler :: "StepParams \<Rightarrow> StepExecutionContext \<Rightarrow> 'w \<Rightarrow> (Thrown + StepResult) \<times> 'w"

text \<open>
  The environment: the step registry, the clock (\<^verbatim>\<open>Date.now()\<close>, \<^verbatim>\<open>new Date()\<close>), what
  waiting for a timer does to the world, the conversion \<^verbatim>\<open>String(v)\<close>, and the id that
  \<^verbatim>\<open>generateId\<close> makes.
\<close>

record 'w Environment =
  handlers :: "string \<Rightarrow> 'w StepHandler option"
  now :: "'w \<Rightarrow> int"
  sleep :: "int \<Rightarrow> 'w \<Rightarrow> 'w"
  stringOf :: "jsval \<Rightarrow> string"
  newExecutionId :: "'w \<Rightarrow> string"

text \<open>
  The state a run works on: the world, the delays passed to \<^verbatim>\<open>setTimeout\<close> so far, the
  execution record and the template context.
\<close>

record 'w RunState =
  world :: 'w
  timers :: "int list"
  execution :: WorkflowExecution
  tcontext :: TemplateContext

section \<open>Workflow executor\<close>

text \<open>The truth value of what was thrown, and \<^verbatim>\<open>e instanceof Error ? e.message : String(e)\<close>.\<close>

fun thrownTruthy :: "Thrown \<Rightarrow> bool" where
  "thrownTruthy (ErrorObject _ _) = True"
| "thrownTruthy (NonError v) = truthy v"

fun thrownMessage :: "(jsval \<Rightarrow> string) \<Rightarrow> Thrown \<Rightarrow> string" where
  "thrownMessage str (ErrorObject _ m) = m"
| "thrownMessage str (NonError v) = str v"

text \<open>
  \<^verbatim>\<open>executeWithRetry\<close>: the loop from \<open>attempt\<close> on. Before a retry the catch block reads
  \<^verbatim>\<open>lastError.message\<close>, which itself throws a \<^verbatim>\<open>TypeError\<close> when the handler has thrown
  \<^verbatim>\<open>null\<close> or \<^verbatim>\<open>undefined\<close> (the message text is the engine's).
\<close>

function executeWithRetryLoop ::
  "'w Environment \<Rightarrow> ('w \<Rightarrow> (Thrown + 'a) \<times> 'w) \<Rightarrow> int \<Rightarrow> int \<Rightarrow> int \<Rightarrow> Thrown option
     \<Rightarrow> 'w RunState \<Rightarrow> (Thrown + 'a) \<times> 'w RunState" where
  "executeWithRetryLoop env fn maxAtt backoff attempt lastError st =
     (if attempt \<le> maxAtt then
        (case fn (world st) of
           (Inr r, w) \<Rightarrow> (Inr r, st\<lparr>world := w\<rparr>)
         | (Inl err, w) \<Rightarrow>
             if attempt < maxAtt then
               (if err = NonError JNull \<or> err = NonError JUndefined then
                  (Inl (ErrorObject ''TypeError''
                          ''Cannot read properties of undefined (reading 'message')''),
                   st\<lparr>world := w\<rparr>)
                else
                  executeWithRetryLoop env fn maxAtt backoff (attempt + 1) (Some err)
                    (st\<lparr>world := sleep env (backoff * attempt) w,
                        timers := timers st @ [backoff * attempt]\<rparr>))
             else
               executeWithRetryLoop env fn maxAtt backoff (attempt + 1) (Some err)
                 (st\<lparr>world := w\<rparr>))
      else
        (Inl (case lastError of
                Some err \<Rightarrow>
                  if thrownTruthy err then err
                  else ErrorObject ''Error'' ''Max retry attempts reached''
              | None \<Rightarrow> ErrorObject ''Error'' ''Max retry attempts reached''),
         st))"
  by pat_completeness auto
termination executeWithRetryLoop
  by (relation "measure (\<lambda>(env, fn, maxAtt, backoff, attempt, lastError, st).
        nat (maxAtt + 1 - attempt))") auto

declare executeWithRetryLoop.simps [simp del]

definition executeWithRetry ::
  "'w Environment \<Rightarrow> ('w \<Rightarrow> (Thrown + 'a) \<times> 'w) \<Rightarrow> int \<Rightarrow> int
     \<Rightarrow> 'w RunState \<Rightarrow> (Thrown + 'a) \<times> 'w RunState" where
  "executeWithRetry env fn maxAtt backoff st = executeWithRetryLoop env fn maxAtt backoff 1 None st"

text \<open>An optional string as a value, and the optional chaining \<^verbatim>\<open>v?.name\<close>.\<close>

definition optionalString :: "string option \<Rightarrow> jsval" where
  "optionalString v = (case v of None \<Rightarrow> JUndefined | Some s \<Rightarrow> JStr s)"

definition optionalProp :: "jsval \<Rightarrow> string \<Rightarrow> jsval" where
  "optionalProp v name = (if v = JNull \<or> v = JUndefined then JUndefined else getProp v name)"

text \<open>Addition of numbers (exact on finite numbers), for the metrics.\<close>

fun numAdd :: "jsnum \<Rightarrow> jsnum \<Rightarrow> jsnum" where
  "numAdd (Finite a) (Finite b) = Finite (a + b)"
| "numAdd NaN _ = NaN"
| "numAdd _ NaN = NaN"
| "numAdd PosInfinity NegInfinity = NaN"
| "numAdd NegInfinity PosInfinity = NaN"
| "numAdd PosInfinity _ = PosInfinity"
| "numAdd _ PosInfinity = PosInfinity"
| "numAdd NegInfinity _ = NegInfinity"
| "numAdd _ NegInfinity = NegInfinity"

definition addMetric :: "jsnum \<Rightarrow> jsval \<Rightarrow> jsnum" where
  "addMetric acc v = (case v of JNum n \<Rightarrow> numAdd acc n | _ \<Rightarrow> acc)"

definition updateMetrics :: "Metrics \<Rightarrow> jsval \<Rightarrow> Metrics" where
  "updateMetrics m meta =
     (if truthy meta then
        m\<lparr>llmCallCount := addMetric (llmCallCount m) (getProp meta ''llmCallCount''),
          ragQueryCount := addMetric (ragQueryCount m) (getProp meta ''ragQueryCount''),
          totalTokensUsed := addMetric (totalTokensUsed m) (getProp meta ''tokensUsed'')\<rparr>
      else m)"

text \<open>
  The \<^verbatim>\<open>try\<close> block of \<^verbatim>\<open>executeStep\<close>: the result is the next step id, or what was
  thrown.
\<close>

definition executeStepBody ::
  "'w Environment \<Rightarrow> Workflow \<Rightarrow> WorkflowStep \<Rightarrow> 'w RunState \<Rightarrow> (Thrown + jsval) \<times> 'w RunState" where
  "executeStepBody env workflow step st =
     (case handlers env (step_type step) of
        None \<Rightarrow>
          (Inl (ErrorObject ''ConfigurationError''
                  (''No handler registered for step type '' @ [CHR 0x27] @ step_type step @ [CHR 0x27])),
           st)
      | Some handler \<Rightarrow>
          (case validateParams handler (params step) of
             Some err \<Rightarrow> (Inl err, st)
           | None \<Rightarrow>
               let stepContext =
                     \<lparr>scOrganizationId = organizationId (execution st),
                      scSubOrganizationId = subOrganizationId (execution st),
                      scWorkflowId = workflow_id workflow,
                      scExecutionId = execId (execution st),
                      scTemplateContext = tcontext st\<rparr>;
                   maxAtt = (case retry step of
                               None \<Rightarrow> 1
                             | Some rc \<Rightarrow> if maxAttempts rc \<noteq> 0 then maxAttempts rc else 1);
                   backoff = (case retry step of
                               None \<Rightarrow> 1000
                             | Some rc \<Rightarrow> if backoffMs rc \<noteq> 0 then backoffMs rc else 1000)
               in case executeWithRetry env (executeHandler handler (params step) stepContext)
                         maxAtt backoff st of
                    (Inl err, st1) \<Rightarrow> (Inl err, st1)
                  | (Inr result, st1) \<Rightarrow>
                      let ex1 = updateStepExecution (execution st1) (step_id step)
                                  [SetStatus (if success result then StepCompleted else StepFailed),
                                   SetOutput (resultOutput result),
                                   SetError (resultError result),
                                   SetCompletedAt (now env (world st1)),
                                   SetDurationMs (optionalProp (metadata result) ''duration'')];
                          tc1 = (tcontext st1)\<lparr>ctxSteps := (ctxSteps (tcontext st1))
                                  (step_id step \<mapsto>
                                     \<lparr>stepOutput = resultOutput result,
                                      stepMetadata = metadata result\<rparr>)\<rparr>;
                          ex2 = ex1\<lparr>metrics := updateMetrics (metrics ex1) (metadata result)\<rparr>;
                          st2 = st1\<lparr>execution := ex2, tcontext := tc1\<rparr>
                      in (Inr (if \<not> success result then optionalString (onFailure step)
                               else if step_type step = ''CONDITION'' \<and> truthy (resultOutput result)
                                 then getProp (resultOutput result) ''nextStep''
                               else if truthyStr (onSuccess step) then optionalString (onSuccess step)
                               else optionalString (nextStepId step)),
                          st2)))"

text \<open>\<^verbatim>\<open>executeStep\<close>: the new entry, the \<^verbatim>\<open>try\<close> block, and the \<^verbatim>\<open>catch\<close> block.\<close>

definition executeStep ::
  "'w Environment \<Rightarrow> Workflow \<Rightarrow> WorkflowStep \<Rightarrow> 'w RunState \<Rightarrow> (Thrown + jsval) \<times> 'w RunState" where
  "executeStep env workflow step st =
     (let st1 = st\<lparr>execution := addStepExecution (execution st) (step_id step) (step_type step)\<rparr>;
          st2 = st1\<lparr>execution := updateStepExecution (execution st1) (step_id step)
                   [SetStatus StepRunning, SetStartedAt (now env (world st1))]\<rparr>
      in case executeStepBody env workflow step st2 of
           (Inr next, st3) \<Rightarrow> (Inr next, st3)
         | (Inl err, st3) \<Rightarrow>
             let st4 = st3\<lparr>execution := updateStepExecution (execution st3) (step_id step)
                            [SetStatus StepFailed,
                             SetError (Some (thrownMessage (stringOf env) err)),
                             SetCompletedAt (now env (world st3))]\<rparr>
             in if truthyStr (onFailure step) then (Inr (optionalString (onFailure step)), st4)
                else (Inl (ErrorObject ''StepExecutionError''
                             (''Step '' @ [CHR 0x27] @ step_id step @ [CHR 0x27] @ '' failed: ''
                              @ thrownMessage (stringOf env) err)),
                      st4))"

text \<open>
  \<^verbatim>\<open>executeSteps\<close>: the \<^verbatim>\<open>while\<close> loop. \<open>currentStepId\<close> is a value, since a condition
  step's output supplies it; \<open>timeoutMs\<close> is \<open>None\<close> when it is \<^verbatim>\<open>undefined\<close>, and zero is
  false like \<^verbatim>\<open>undefined\<close>.
\<close>

definition timedOut :: "int option \<Rightarrow> int \<Rightarrow> bool" where
  "timedOut timeoutMs elapsed =
     (case timeoutMs of None \<Rightarrow> False | Some t \<Rightarrow> t \<noteq> 0 \<and> elapsed > t)"

definition showOptInt :: "int option \<Rightarrow> string" where
  "showOptInt v = (case v of None \<Rightarrow> ''undefined'' | Some t \<Rightarrow> showInt t)"

function executeStepsLoop ::
  "'w Environment \<Rightarrow> Workflow \<Rightarrow> int \<Rightarrow> int option \<Rightarrow> int \<Rightarrow> jsval \<Rightarrow> nat
     \<Rightarrow> 'w RunState \<Rightarrow> (Thrown + unit) \<times> 'w RunState" where
  "executeStepsLoop env workflow maxStepsV timeoutMs startTime currentStepId executed st =
     (if truthy currentStepId then
        if int executed \<ge> maxStepsV then
          (Inl (ErrorObject ''WorkflowValidationError''
                  (''Exceeded maximum steps ('' @ showInt maxStepsV @ '')'')), st)
        else if timedOut timeoutMs (now env (world st) - startTime) then
          (Inl (ErrorObject ''TimeoutError''
                  (''Workflow execution exceeded timeout ('' @ showOptInt timeoutMs @ ''ms)'')), st)
        else
          (case find (\<lambda>s. strictEquals (JStr (step_id s)) currentStepId) (steps workflow) of
             None \<Rightarrow>
               (Inl (ErrorObject ''WorkflowValidationError''
                       (''Step not found: '' @ stringOf env currentStepId)), st)
           | Some step \<Rightarrow>
               (case executeStep env workflow step st of
                  (Inl err, st1) \<Rightarrow> (Inl err, st1)
                | (Inr nextStepIdV, st1) \<Rightarrow>
                    executeStepsLoop env workflow maxStepsV timeoutMs startTime nextStepIdV
                      (Suc executed)
                      (st1\<lparr>execution := (execution st1)
                            \<lparr>metrics := (metrics (execution st1))\<lparr>stepsExecuted := Suc executed\<rparr>\<rparr>\<rparr>)))
      else (Inr (), st))"
  by pat_completeness auto
termination executeStepsLoop
  by (relation "measure (\<lambda>(env, workflow, maxStepsV, timeoutMs, startTime, currentStepId, executed, st).
        nat (maxStepsV - int executed))") auto

declare executeStepsLoop.simps [simp del]

definition executeSteps ::
  "'w Environment \<Rightarrow> Workflow \<Rightarrow> ExecutionOptions option \<Rightarrow> 'w RunState
     \<Rightarrow> (Thrown + unit) \<times> 'w RunState" where
  "executeSteps env workflow options st =
     (let maxStepsV = (case options of
                         None \<Rightarrow> maxSteps workflow
                       | Some opts \<Rightarrow>
                           (case optMaxSteps opts of
                              None \<Rightarrow> maxSteps workflow
                            | Some m \<Rightarrow> if m \<noteq> 0 then m else maxSteps workflow));
          timeoutMs = (case options of
                         None \<Rightarrow> maxExecutionTimeMs workflow
                       | Some opts \<Rightarrow>
                           (case optTimeoutMs opts of
                              None \<Rightarrow> maxExecutionTimeMs workflow
                            | Some t \<Rightarrow> if t \<noteq> 0 then Some t else maxExecutionTimeMs workflow))
      in executeStepsLoop env workflow maxStepsV timeoutMs (now env (world st))
           (JStr (entryStepId workflow)) 0 st)"

text \<open>\<^verbatim>\<open>validateOrThrow\<close>: what it throws, if anything.\<close>

definition validateOrThrow :: "Workflow \<Rightarrow> Thrown option" where
  "validateOrThrow workflow =
     (let result = validate workflow in
      if \<not> valid result
      then Some (ErrorObject ''WorkflowValidationError''
                   (''Workflow validation failed: '' @ join ''; '' (errors result)))
      else None)"

text \<open>
  \<^verbatim>\<open>WorkflowExecutor.execute\<close>. \<open>Inl\<close> is an exception that reaches the caller; otherwise
  the final state holds the returned execution record.
\<close>

definition execute ::
  "'w Environment \<Rightarrow> Workflow \<Rightarrow> string \<Rightarrow> jsval \<Rightarrow> string option \<Rightarrow> ExecutionOptions option
     \<Rightarrow> 'w \<Rightarrow> Thrown + 'w RunState" where
  "execute env workflow orgId payload subOrgId options w =
     (case validateOrThrow workflow of
        Some err \<Rightarrow> Inl err
      | None \<Rightarrow>
         (case createWorkflowExecution (newExecutionId env w) (workflow_id workflow)
                 (version workflow) orgId payload subOrgId of
            Inl err \<Rightarrow> Inl err
          | Inr ex0 \<Rightarrow>
          let ex1 = ex0\<lparr>runStatus := Running, runStartedAt := Some (now env w)\<rparr>;
              tc = \<lparr>ctxInput = payload, ctxSteps = Map.empty,
                    ctxContext = \<lparr>cWorkflowId = workflow_id workflow, cExecutionId = execId ex1,
                                  cOrganizationId = orgId, cSubOrganizationId = subOrgId\<rparr>\<rparr>;
              st = \<lparr>world = w, timers = [], execution = ex1, tcontext = tc\<rparr>
          in case executeSteps env workflow options st of
               (Inr u, st1) \<Rightarrow>
                 let ex2 = execution st1;
                     ex3 = (if stepExecutions ex2 \<noteq> [] \<and> truthy (outputV (last (stepExecutions ex2)))
                            then ex2\<lparr>outputPayload := outputV (last (stepExecutions ex2))\<rparr>
                            else ex2);
                     t = now env (world st1)
                 in Inr (st1\<lparr>execution := ex3\<lparr>runStatus := Completed, runCompletedAt := Some t,
                                               runDurationMs := Some (t - now env w)\<rparr>\<rparr>)
             | (Inl err, st1) \<Rightarrow>
                 let ex2 = execution st1;
                     t = now env (world st1);
                     ex3 = ex2\<lparr>runStatus := Failed, runCompletedAt := Some t,
                               runDurationMs := Some (t - now env w)\<rparr>
                 in Inr (st1\<lparr>execution :=
                              (case err of
                                 ErrorObject n m \<Rightarrow> ex3\<lparr>runError := Some \<lparr>message = m, code = n\<rparr>\<rparr>
                               | NonError v \<Rightarrow> ex3)\<rparr>)))"

section \<open>Example runs\<close>

text \<open>
  An environment for closed examples. The world counts the calls of handlers; the clock
  stands still and waiting changes nothing. Four handlers: one that throws on its first
  two calls and then succeeds, one that returns a failure result, one that always
  throws, and a condition handler whose output names the step \<^verbatim>\<open>again\<close> as the next one.
\<close>

definition basicString :: "jsval \<Rightarrow> string" where
  "basicString v =
     (case v of
        JUndefined \<Rightarrow> ''undefined''
      | JNull \<Rightarrow> ''null''
      | JBool b \<Rightarrow> (if b then ''true'' else ''false'')
      | JNum n \<Rightarrow> numberToString showIntegral n
      | JStr s \<Rightarrow> s
      | _ \<Rightarrow> ''[object Object]'')"

definition okResult :: StepResult where
  "okResult =
     \<lparr>success = True, resultOutput = JObj 1 [(''text'', JStr ''done'')], metadata = JUndefined,
      resultError = None\<rparr>"

definition flakyHandler :: "nat StepHandler" where
  "flakyHandler =
     \<lparr>validateParams = (\<lambda>p. None),
      executeHandler = (\<lambda>p c n.
        (if n < 2 then Inl (ErrorObject ''Error'' ''temporary failure'') else Inr okResult, Suc n))\<rparr>"

definition failingHandler :: "nat StepHandler" where
  "failingHandler =
     \<lparr>validateParams = (\<lambda>p. None),
      executeHandler = (\<lambda>p c n.
        (Inr \<lparr>success = False, resultOutput = JNull, metadata = JUndefined,
              resultError = Some ''RAG query failed: service down''\<rparr>, Suc n))\<rparr>"

definition throwingHandler :: "nat StepHandler" where
  "throwingHandler =
     \<lparr>validateParams = (\<lambda>p. None),
      executeHandler = (\<lambda>p c n. (Inl (ErrorObject ''Error'' ''service down''), Suc n))\<rparr>"

definition loopingHandler :: "nat StepHandler" where
  "loopingHandler =
     \<lparr>validateParams = (\<lambda>p. None),
      executeHandler = (\<lambda>p c n.
        (Inr \<lparr>success = True, resultOutput = JObj 1 [(''nextStep'', JStr ''again'')],
              metadata = JUndefined, resultError = None\<rparr>, Suc n))\<rparr>"

definition exampleEnv :: "nat Environment" where
  "exampleEnv =
     \<lparr>handlers = (\<lambda>t. if t = ''FLAKY'' then Some flakyHandler
                       else if t = ''RAG'' then Some failingHandler
                       else if t = ''API_CALL'' then Some throwingHandler
                       else if t = ''CONDITION'' then Some loopingHandler
                       else None),
      now = (\<lambda>n. 0), sleep = (\<lambda>d n. n), stringOf = basicString,
      newExecutionId = (\<lambda>n. ''exec_1'')\<rparr>"

definition singleStepWorkflow :: "string \<Rightarrow> string \<Rightarrow> RetryConfig option \<Rightarrow> int \<Rightarrow> Workflow" where
  "singleStepWorkflow i t r m =
     \<lparr>workflow_id = ''wf_test'', version = 1, entryStepId = i,
      steps = [\<lparr>step_id = i, step_type = t,
                params = \<lparr>onTrue = None, onFalse = None, otherParams = JObj 1 []\<rparr>,
                nextStepId = None, onSuccess = None, onFailure = None, retry = r\<rparr>],
      maxExecutionTimeMs = None, maxSteps = m\<rparr>"

definition retryWorkflow :: Workflow where
  "retryWorkflow = singleStepWorkflow ''s1'' ''FLAKY'' (Some \<lparr>maxAttempts = 3, backoffMs = 100\<rparr>) 100"

definition failingWorkflow :: Workflow where
  "failingWorkflow = singleStepWorkflow ''s1'' ''RAG'' None 100"

definition throwingWorkflow :: Workflow where
  "throwingWorkflow = singleStepWorkflow ''s1'' ''API_CALL'' None 100"

definition loopingWorkflow :: Workflow where
  "loopingWorkflow = singleStepWorkflow ''again'' ''CONDITION'' None 2"

text \<open>The run of a workflow in the example environment, on an empty input.\<close>

definition exampleRun :: "Workflow \<Rightarrow> Thrown + nat RunState" where
  "exampleRun workflow = execute exampleEnv workflow ''org_test'' (JObj 0 []) None None 0"


definition returnedRecord :: "Thrown + 'w RunState \<Rightarrow> WorkflowExecution option" where
  "returnedRecord r = (case r of Inl err \<Rightarrow> None | Inr st \<Rightarrow> Some (execution st))"

definition requestedTimers :: "Thrown + 'w RunState \<Rightarrow> int list" where
  "requestedTimers r = (case r of Inl err \<Rightarrow> [] | Inr st \<Rightarrow> timers st)"

text \<open>
  The state in which \<open>execute\<close> starts the steps of the looping workflow, and the state
  after its step has run once.
\<close>

definition loopingStart :: "nat RunState" where
  "loopingStart =
     \<lparr>world = 0, timers = [],
      execution = (initialExecution ''exec_1'' ''wf_test'' 1 ''org_test'' (JObj 0 []) None)
                    \<lparr>runStatus := Running, runStartedAt := Some 0\<rparr>,
      tcontext = \<lparr>ctxInput = JObj 0 [], ctxSteps = Map.empty,
                   ctxContext = \<lparr>cWorkflowId = ''wf_test'', cExecutionId = ''exec_1'',
                                 cOrganizationId = ''org_test'', cSubOrganizationId = None\<rparr>\<rparr>\<rparr>"

definition loopingOnce :: "nat RunState" where
  "loopingOnce = snd (executeStep exampleEnv loopingWorkflow (hd (steps loopingWorkflow)) loopingStart)"

section \<open>Notions for the execution record\<close>

text \<open>
  The entries \<open>xs\<close> differ from \<open>base\<close> at most at index \<open>i\<close>, and carry the same step
  ids.
\<close>

definition changedOnlyAt :: "nat \<Rightarrow> StepExecution list \<Rightarrow> StepExecution list \<Rightarrow> bool" where
  "changedOnlyAt i base xs =
     (length xs = length base \<and> map stepId xs = map stepId base
      \<and> (\<forall>j<length base. j \<noteq> i \<longrightarrow> xs ! j = base ! j))"

text \<open>What the functions that write step entries leave alone.\<close>

definition sameRun :: "WorkflowExecution \<Rightarrow> WorkflowExecution \<Rightarrow> bool" where
  "sameRun a b = (runStatus a = runStatus b \<and> runError a = runError b)"


text \<open>Every step entry of the record has a \<^verbatim>\<open>retryCount\<close> of 0.\<close>

definition retryCountsZero :: "WorkflowExecution \<Rightarrow> bool" where
  "retryCountsZero ex = list_all (\<lambda>se. retryCount se = 0) (stepExecutions ex)"
section \<open>Properties of the comparison\<close>

lemma numeric_comparison_non_number:
  assumes "typeOf l \<noteq> TNumber \<or> typeOf r \<noteq> TNumber"
  shows "\<not> evaluateComparison l OpGt r" and "\<not> evaluateComparison l OpLt r"
    and "\<not> evaluateComparison l OpGe r" and "\<not> evaluateComparison l OpLe r"
  using assms by (cases l; cases r; simp)+

lemma strictEquals_type_mismatch: "typeOf l \<noteq> typeOf r \<Longrightarrow> \<not> strictEquals l r"
  by (cases l; cases r; simp)

lemma strictEquals_null: "strictEquals JNull r = (r = JNull)" "strictEquals l JNull = (l = JNull)"
  by (cases r; simp) (cases l; simp)

lemma strictEquals_primitive:
  "strictEquals (JBool a) (JBool b) = (a = b)"
  "strictEquals (JStr s) (JStr t) = (s = t)"
  "strictEquals (JNum (Finite x)) (JNum (Finite y)) = (x = y)"
  by (simp_all add: numEq_def)

lemma strictEquals_NaN: "\<not> strictEquals (JNum NaN) r"
  by (cases r) (simp_all add: numEq_def)

text \<open>
  C7. For every pair of operand values, each of \<^verbatim>\<open>>\<close>, \<^verbatim>\<open><\<close>, \<^verbatim>\<open>>=\<close>, \<^verbatim>\<open><=\<close> is the
  arithmetic comparison when both operands are numbers (on finite numbers the order of the
  reals) and false when an operand is not a number; \<^verbatim>\<open>==\<close> is strict equality and
  \<^verbatim>\<open>!=\<close> its negation: operands of different types are never equal, finite numbers,
  booleans and strings are equal exactly when their values are, and a value equals
  \<^verbatim>\<open>null\<close> exactly when it is \<^verbatim>\<open>null\<close>.
\<close>

theorem evaluateComparison_spec:
  "evaluateComparison (JNum (Finite x)) OpGt (JNum (Finite y)) = (x > y)
   \<and> evaluateComparison (JNum (Finite x)) OpLt (JNum (Finite y)) = (x < y)
   \<and> evaluateComparison (JNum (Finite x)) OpGe (JNum (Finite y)) = (x \<ge> y)
   \<and> evaluateComparison (JNum (Finite x)) OpLe (JNum (Finite y)) = (x \<le> y)
   \<and> evaluateComparison (JNum m) OpGt (JNum n) = numLess n m
   \<and> evaluateComparison (JNum m) OpLt (JNum n) = numLess m n
   \<and> evaluateComparison (JNum m) OpGe (JNum n) = numLessEq n m
   \<and> evaluateComparison (JNum m) OpLe (JNum n) = numLessEq m n
   \<and> (typeOf l \<noteq> TNumber \<or> typeOf r \<noteq> TNumber \<longrightarrow>
        \<not> evaluateComparison l OpGt r \<and> \<not> evaluateComparison l OpLt r
        \<and> \<not> evaluateComparison l OpGe r \<and> \<not> evaluateComparison l OpLe r)
   \<and> evaluateComparison l OpEq r = strictEquals l r
   \<and> evaluateComparison l OpNe r = (\<not> evaluateComparison l OpEq r)
   \<and> (typeOf l \<noteq> typeOf r \<longrightarrow> \<not> evaluateComparison l OpEq r \<and> evaluateComparison l OpNe r)
   \<and> evaluateComparison (JBool a) OpEq (JBool b) = (a = b)
   \<and> evaluateComparison (JStr s) OpEq (JStr t) = (s = t)
   \<and> evaluateComparison (JNum (Finite x)) OpEq (JNum (Finite y)) = (x = y)
   \<and> evaluateComparison JNull OpEq r = (r = JNull)
   \<and> evaluateComparison l OpEq JNull = (l = JNull)
   \<and> evaluateComparison JNull OpNe r = (r \<noteq> JNull)"
  using numeric_comparison_non_number [of l r] strictEquals_type_mismatch [of l r]
  by (auto simp: numLessEq_def numEq_def strictEquals_null)

theorem evaluateComparison_spec_witness:
  "typeOf (JStr ''5'') \<noteq> TNumber
   \<and> \<not> evaluateComparison (JStr ''5'') OpGt (JNum (Finite 3))
   \<and> \<not> evaluateComparison (JStr ''5'') OpLe (JNum (Finite 3))
   \<and> typeOf (JStr ''5'') \<noteq> typeOf (JNum (Finite 5))
   \<and> \<not> evaluateComparison (JStr ''5'') OpEq (JNum (Finite 5))
   \<and> evaluateComparison (JStr ''5'') OpNe (JNum (Finite 5))"
  using evaluateComparison_spec [of 0 0 NaN NaN "JStr ''5''" "JNum (Finite 3)" True True "''''" "''''"]
    evaluateComparison_spec [of 0 0 NaN NaN "JStr ''5''" "JNum (Finite 5)" True True "''''" "''''"]
  by simp


section \<open>Properties of the template engine\<close>
















section \<open>Properties of the expression engine\<close>



text \<open>The specification's example of a conjunction.\<close>

lemma evaluateExpression_examples:
  "evaluateExpression ''input.score > 0.8 && input.count > 3'' scoreContext"
  "\<not> evaluateExpression ''input.score > 0.9 && input.count > 3'' scoreContext"
  by code_simp+

text \<open>
  The parser is lenient: an operator in the place of a value is read as a path, and a
  missing closing parenthesis or tokens left over are not failures.
\<close>

lemma evaluateExpression_lenient:
  "evaluateExpression ''> != 5'' scoreContext"
  "evaluateExpression ''(input.score > 0.8'' scoreContext"
  by code_simp+

section \<open>Properties of the validator\<close>













lemma collectStepIds_split:
  "collectStepIds ss (ids, dups) =
     (ids @ firstsFrom (set ids) (map step_id ss), dups @ duplicatesFrom (set ids) (map step_id ss))"
  by (induction ss arbitrary: ids dups) (auto simp: insert_absorb)

lemma set_firstsFrom: "set (firstsFrom seen xs) = set xs - seen"
  by (induction xs arbitrary: seen) auto

lemma validate_valid_iff:
  "valid (validate w) = (errors (validate w) = [])"
  "isValid (validate w) = valid (validate w)"
  "warnings (validate w) = []"
  by (simp_all add: validate_def Let_def split: prod.splits)

lemma validate_errors_nonempty:
  assumes "steps w \<noteq> []"
  shows "errors (validate w) = allCheckErrors w"
proof -
  have ids: "set (firstsFrom {} (map step_id (steps w))) = step_id ` set (steps w)"
    by (simp add: set_firstsFrom)
  show "errors (validate w) = allCheckErrors w"
    using assms ids
    by (simp add: validate_def collectStepIds_split [of _ "[]" "[]", simplified] Let_def
        allCheckErrors_def stepCountErrors_def duplicateIdErrors_def entryStepErrors_def
        referenceErrors_def cycleErrors_def unreachableErrors_def)
qed

lemma validate_errors_empty:
  assumes "steps w = []"
  shows "errors (validate w) = [''Workflow must have at least one step'']"
  using assms by (simp add: validate_def)

text \<open>
  C8 (amended). For every workflow the result is valid exactly when its error list is
  empty, \<open>isValid\<close> repeats \<open>valid\<close>, and there are never warnings. For every workflow
  with at least one step, the error list is the concatenation of what the six checks
  (step count, duplicate ids, entry step, references, cycles, unreachable steps) report,
  each computed from the workflow alone: every check runs, whatever the others found.
  For a workflow without steps the validator returns at once with the single error
  \<^verbatim>\<open>Workflow must have at least one step\<close>.
\<close>

theorem validate_collects_all_checks:
  "valid (validate w) = (errors (validate w) = [])
   \<and> isValid (validate w) = valid (validate w)
   \<and> warnings (validate w) = []
   \<and> (steps w \<noteq> [] \<longrightarrow> errors (validate w) = allCheckErrors w)
   \<and> (steps w = [] \<longrightarrow> errors (validate w) = [''Workflow must have at least one step''])"
  using validate_errors_nonempty [of w] validate_errors_empty [of w] validate_valid_iff [of w]
  by simp

theorem validate_collects_all_checks_witness:
  "steps cyclicWorkflow \<noteq> []
   \<and> errors (validate cyclicWorkflow) = allCheckErrors cyclicWorkflow
   \<and> errors (validate cyclicWorkflow) = [''circular references detected: s01 -> s02 -> s01'']
   \<and> \<not> valid (validate cyclicWorkflow)
   \<and> steps emptyWorkflow = []
   \<and> errors (validate emptyWorkflow) = [''Workflow must have at least one step'']"
proof -
  have ne: "steps cyclicWorkflow \<noteq> []" by (simp add: cyclicWorkflow_def)
  have e: "steps emptyWorkflow = []" by (simp add: emptyWorkflow_def)
  have ev: "errors (validate cyclicWorkflow) = [''circular references detected: s01 -> s02 -> s01'']"
    by code_simp
  show ?thesis
    using validate_collects_all_checks [of cyclicWorkflow] validate_collects_all_checks [of emptyWorkflow]
      ne e ev by simp
qed

text \<open>
  C8 as stated fails on a workflow without steps: its entry step does not exist, yet the
  entry-step check does not run and its error is not collected.
\<close>

theorem validate_empty_skips_checks:
  "entryStepErrors emptyWorkflow
     = [''Entry step '' @ [CHR 0x27] @ ''s01'' @ [CHR 0x27] @ '' referenced by entryStepId not found in workflow steps'']
   \<and> errors (validate emptyWorkflow) = [''Workflow must have at least one step'']
   \<and> errors (validate emptyWorkflow) \<noteq> allCheckErrors emptyWorkflow"
  by code_simp




section \<open>Properties of the executor\<close>

lemma executeWithRetryLoop_frame:
  "execution (snd (executeWithRetryLoop env fn maxAtt backoff attempt lastError st)) = execution st
   \<and> tcontext (snd (executeWithRetryLoop env fn maxAtt backoff attempt lastError st)) = tcontext st"
proof (induction env fn maxAtt backoff attempt lastError st rule: executeWithRetryLoop.induct)
  case (1 env fn maxAtt backoff attempt lastError st)
  note unfold = executeWithRetryLoop.simps [of env fn maxAtt backoff attempt lastError st]
  show ?case
  proof (cases "attempt \<le> maxAtt")
    case False
    then show ?thesis by (simp add: unfold)
  next
    case le: True
    obtain r w where f: "fn (world st) = (r, w)" by (cases "fn (world st)")
    show ?thesis
    proof (cases r)
      case (Inr a)
      with le f show ?thesis by (simp add: unfold)
    next
      case (Inl err)
      show ?thesis
      proof (cases "attempt < maxAtt")
        case less: True
        show ?thesis
        proof (cases "err = NonError JNull \<or> err = NonError JUndefined")
          case True
          with le f Inl less show ?thesis by (simp add: unfold)
        next
          case False
          have "executeWithRetryLoop env fn maxAtt backoff attempt lastError st
              = executeWithRetryLoop env fn maxAtt backoff (attempt + 1) (Some err)
                  (st\<lparr>world := sleep env (backoff * attempt) w,
                      timers := timers st @ [backoff * attempt]\<rparr>)"
            using le f Inl less False by (simp add: unfold)
          with "1.IH"(1) [OF le f [symmetric] Inl less False] show ?thesis by simp
        qed
      next
        case False
        have "executeWithRetryLoop env fn maxAtt backoff attempt lastError st
            = executeWithRetryLoop env fn maxAtt backoff (attempt + 1) (Some err) (st\<lparr>world := w\<rparr>)"
          by (subst unfold) (use le f Inl False in simp)
        with "1.IH"(2) [OF le f [symmetric] Inl False] show ?thesis by simp
      qed
    qed
  qed
qed

lemma executeWithRetry_frame:
  "executeWithRetry env fn maxAtt backoff st = (r, st1) \<Longrightarrow>
     execution st1 = execution st \<and> tcontext st1 = tcontext st"
  using executeWithRetryLoop_frame [of env fn maxAtt backoff 1 None st]
  by (simp add: executeWithRetry_def)

text \<open>
  One turn of the retry loop: a call that returns ends it; a call that throws before the
  last attempt is followed by a timer of \<^verbatim>\<open>backoffMs * attempt\<close> milliseconds and the next
  attempt; a throw at the last attempt is rethrown.
\<close>

lemma executeWithRetryLoop_success:
  "attempt \<le> maxAtt \<Longrightarrow> fn (world st) = (Inr r, w) \<Longrightarrow>
     executeWithRetryLoop env fn maxAtt backoff attempt lastError st = (Inr r, st\<lparr>world := w\<rparr>)"
  by (subst executeWithRetryLoop.simps) simp

lemma executeWithRetryLoop_backoff:
  "attempt < maxAtt \<Longrightarrow> fn (world st) = (Inl err, w) \<Longrightarrow>
   err \<noteq> NonError JNull \<Longrightarrow> err \<noteq> NonError JUndefined \<Longrightarrow>
     executeWithRetryLoop env fn maxAtt backoff attempt lastError st
       = executeWithRetryLoop env fn maxAtt backoff (attempt + 1) (Some err)
           (st\<lparr>world := sleep env (backoff * attempt) w,
               timers := timers st @ [backoff * attempt]\<rparr>)"
  by (subst executeWithRetryLoop.simps) simp

lemma executeWithRetryLoop_last_attempt:
  assumes "fn (world st) = (Inl err, w)"
  shows "executeWithRetryLoop env fn maxAtt backoff maxAtt lastError st
       = (Inl (if thrownTruthy err then err else ErrorObject ''Error'' ''Max retry attempts reached''),
          st\<lparr>world := w\<rparr>)"
proof -
  have "executeWithRetryLoop env fn maxAtt backoff maxAtt lastError st
      = executeWithRetryLoop env fn maxAtt backoff (maxAtt + 1) (Some err) (st\<lparr>world := w\<rparr>)"
    by (subst executeWithRetryLoop.simps) (simp add: assms)
  also have "\<dots> = (Inl (if thrownTruthy err then err
                         else ErrorObject ''Error'' ''Max retry attempts reached''),
                    st\<lparr>world := w\<rparr>)"
    by (subst executeWithRetryLoop.simps) simp
  finally show ?thesis .
qed



lemma sameRun_updateStepExecution: "sameRun (updateStepExecution ex sid ups) ex"
  by (simp add: sameRun_def updateStepExecution_def split: option.splits)

lemma sameRun_addStepExecution: "sameRun (addStepExecution ex sid ty) ex"
  by (simp add: sameRun_def addStepExecution_def)






lemma findIndex_Some:
  "findIndex P xs = Some i \<Longrightarrow> i < length xs \<and> P (xs ! i) \<and> (\<forall>j<i. \<not> P (xs ! j))"
proof (induction xs arbitrary: i)
  case Nil
  then show ?case by simp
next
  case (Cons x xs)
  show ?case
  proof (cases "P x")
    case True
    with Cons.prems show ?thesis by simp
  next
    case False
    with Cons.prems obtain k where k: "findIndex P xs = Some k" "i = Suc k"
      by (auto split: option.splits)
    from Cons.IH [OF k(1)] have "k < length xs" "P (xs ! k)" "\<forall>j<k. \<not> P (xs ! j)"
      by simp_all
    moreover have "\<not> P ((x # xs) ! j)" if "j < Suc k" for j
      using that False \<open>\<forall>j<k. \<not> P (xs ! j)\<close> by (cases j) simp_all
    ultimately show ?thesis using k(2) by simp
  qed
qed

lemma findIndex_append: "findIndex P xs = Some i \<Longrightarrow> findIndex P (xs @ ys) = Some i"
  by (induction xs arbitrary: i) (auto split: option.splits if_splits)

lemma findIndex_map_cong: "map P xs = map P ys \<Longrightarrow> findIndex P xs = findIndex P ys"
proof (induction xs arbitrary: ys)
  case Nil
  then show ?case by simp
next
  case (Cons x xs)
  then obtain y ys' where "ys = y # ys'" "P x = P y" "map P xs = map P ys'" by auto
  with Cons.IH [of ys'] show ?case by simp
qed

lemma objectAssign_keeps:
  "stepId (objectAssign se ups) = stepId se"
  "stepType (objectAssign se ups) = stepType se"
  "retryCount (objectAssign se ups) = retryCount se"
proof -
  have "stepId (foldl assignMember se ups) = stepId se
      \<and> stepType (foldl assignMember se ups) = stepType se
      \<and> retryCount (foldl assignMember se ups) = retryCount se"
  proof (induction ups arbitrary: se)
    case Nil
    then show ?case by simp
  next
    case (Cons u ups)
    show ?case using Cons.IH [of "assignMember se u"] by (cases u) simp_all
  qed
  then show "stepId (objectAssign se ups) = stepId se"
    "stepType (objectAssign se ups) = stepType se"
    "retryCount (objectAssign se ups) = retryCount se"
    by (simp_all add: objectAssign_def)
qed

lemma map_update_same: "f y = f (xs ! i) \<Longrightarrow> map f (xs[i := y]) = map f xs"
proof (rule nth_equalityI)
  show "length (map f (xs[i := y])) = length (map f xs)" by simp
next
  fix j assume "j < length (map f (xs[i := y]))"
  then have j: "j < length xs" by simp
  assume same: "f y = f (xs ! i)"
  show "map f (xs[i := y]) ! j = map f xs ! j"
  proof (cases "j = i")
    case True
    with j same show ?thesis by simp
  next
    case False
    with j show ?thesis by simp
  qed
qed

lemma updateStepExecution_at:
  "findIndex (\<lambda>se. stepId se = sid) (stepExecutions ex) = Some i \<Longrightarrow>
     stepExecutions (updateStepExecution ex sid ups)
       = (stepExecutions ex)[i := objectAssign (stepExecutions ex ! i) ups]"
  by (simp add: updateStepExecution_def)

lemma changedOnlyAt_refl: "changedOnlyAt i base base"
  by (simp add: changedOnlyAt_def)

lemma changedOnlyAt_update:
  assumes idx: "findIndex (\<lambda>se. stepId se = sid) base = Some i"
    and inv: "changedOnlyAt i base (stepExecutions ex)"
  shows "changedOnlyAt i base (stepExecutions (updateStepExecution ex sid ups))"
proof -
  have "map stepId (stepExecutions ex) = map stepId base"
    using inv by (simp add: changedOnlyAt_def)
  then have "map ((\<lambda>s. s = sid) \<circ> stepId) (stepExecutions ex) = map ((\<lambda>s. s = sid) \<circ> stepId) base"
    by (simp only: map_map [symmetric])
  then have "map (\<lambda>se. stepId se = sid) (stepExecutions ex) = map (\<lambda>se. stepId se = sid) base"
    by (simp add: comp_def)
  then have "findIndex (\<lambda>se. stepId se = sid) (stepExecutions ex) = findIndex (\<lambda>se. stepId se = sid) base"
    by (rule findIndex_map_cong)
  with idx have "findIndex (\<lambda>se. stepId se = sid) (stepExecutions ex) = Some i"
    by simp
  then have upd: "stepExecutions (updateStepExecution ex sid ups)
       = (stepExecutions ex)[i := objectAssign (stepExecutions ex ! i) ups]"
    by (rule updateStepExecution_at)
  have "map stepId ((stepExecutions ex)[i := objectAssign (stepExecutions ex ! i) ups])
      = map stepId (stepExecutions ex)"
    by (rule map_update_same) (simp add: objectAssign_keeps)
  with inv upd show ?thesis
    by (simp add: changedOnlyAt_def)
qed





text \<open>
  C2 on the code. A step without \<^verbatim>\<open>onFailure\<close> whose handler returns a result with
  \<^verbatim>\<open>success = false\<close>: the step entry is marked failed, but \<open>executeStep\<close> returns
  \<^verbatim>\<open>undefined\<close> as the next step, the loop ends, and the run is \<^verbatim>\<open>completed\<close> with no
  error.
\<close>

theorem failure_result_without_onFailure_completes:
  "onFailure (hd (steps failingWorkflow)) = None
   \<and> map_option runStatus (returnedRecord (exampleRun failingWorkflow)) = Some Completed
   \<and> map_option runError (returnedRecord (exampleRun failingWorkflow)) = Some None
   \<and> map_option (map stepId \<circ> stepExecutions) (returnedRecord (exampleRun failingWorkflow))
       = Some [''s1'']
   \<and> map_option (map status \<circ> stepExecutions) (returnedRecord (exampleRun failingWorkflow))
       = Some [StepFailed]
   \<and> map_option (map error \<circ> stepExecutions) (returnedRecord (exampleRun failingWorkflow))
       = Some [Some ''RAG query failed: service down'']"
  by code_simp

text \<open>
  The sibling path: when the handler throws instead, the run is \<^verbatim>\<open>failed\<close> and the
  message of its error names the step.
\<close>

lemma thrown_failure_without_onFailure_fails:
  "map_option runStatus (returnedRecord (exampleRun throwingWorkflow)) = Some Failed"
  "map_option runError (returnedRecord (exampleRun throwingWorkflow))
     = Some (Some \<lparr>message = ''Step '' @ [CHR 0x27] @ ''s1'' @ [CHR 0x27] @ '' failed: service down'',
                   code = ''StepExecutionError''\<rparr>)"
  "map_option (map status \<circ> stepExecutions) (returnedRecord (exampleRun throwingWorkflow))
     = Some [StepFailed]"
  by code_simp+

text \<open>
  In general: when the handler returns a result with \<^verbatim>\<open>success = false\<close>, \<open>executeStep\<close>
  does not throw; it returns \<^verbatim>\<open>step.onFailure\<close> as the next step, which is \<^verbatim>\<open>undefined\<close>
  when the step has none.
\<close>

lemma executeStep_failure_result:
  assumes h: "handlers env (step_type step) = Some handler"
    and v: "validateParams handler (params step) = None"
    and f: "\<And>sc w. \<exists>res w'. executeHandler handler (params step) sc w = (Inr res, w') \<and> \<not> success res"
    and a: "\<And>rc. retry step = Some rc \<Longrightarrow> 0 \<le> maxAttempts rc"
  shows "fst (executeStep env workflow step st) = Inr (optionalString (onFailure step))"
proof -
  define st2 where "st2 = st\<lparr>execution := updateStepExecution
      (addStepExecution (execution st) (step_id step) (step_type step))
      (step_id step) [SetStatus StepRunning, SetStartedAt (now env (world st))]\<rparr>"
  define sc where "sc = \<lparr>scOrganizationId = organizationId (execution st2),
                      scSubOrganizationId = subOrganizationId (execution st2),
                      scWorkflowId = workflow_id workflow,
                      scExecutionId = execId (execution st2),
                      scTemplateContext = tcontext st2\<rparr>"
  define maxAtt where "maxAtt = (case retry step of
                               None \<Rightarrow> 1
                             | Some rc \<Rightarrow> if maxAttempts rc \<noteq> 0 then maxAttempts rc else 1)"
  define backoff where "backoff = (case retry step of
                               None \<Rightarrow> 1000
                             | Some rc \<Rightarrow> if backoffMs rc \<noteq> 0 then backoffMs rc else 1000)"
  obtain res w' where r: "executeHandler handler (params step) sc (world st2) = (Inr res, w')"
    "\<not> success res"
    using f [of sc "world st2"] by blast
  have "1 \<le> maxAtt"
    using a by (auto simp: maxAtt_def split: option.splits)
  then have "executeWithRetry env (executeHandler handler (params step) sc) maxAtt backoff st2
      = (Inr res, st2\<lparr>world := w'\<rparr>)"
    unfolding executeWithRetry_def using r(1) by (rule executeWithRetryLoop_success)
  then have "fst (executeStepBody env workflow step st2) = Inr (optionalString (onFailure step))"
    using h v r(2)
    by (simp add: executeStepBody_def Let_def sc_def [symmetric] maxAtt_def [symmetric]
        backoff_def [symmetric])
  then obtain st3 where "executeStepBody env workflow step st2
      = (Inr (optionalString (onFailure step)), st3)"
    by (cases "executeStepBody env workflow step st2") simp
  then show ?thesis
    by (simp add: executeStep_def Let_def st2_def [symmetric])
qed

text \<open>
  C3 on the code. A step with \<^verbatim>\<open>maxAttempts = 3\<close> and \<^verbatim>\<open>backoffMs = 100\<close> whose handler
  throws twice and then succeeds: the run completes after three calls of the handler, with
  timers of 100 and 200 milliseconds between them and one step entry marked completed,
  whose \<^verbatim>\<open>retryCount\<close> is 0.
\<close>

theorem retry_success_keeps_retryCount_zero:
  "retry (hd (steps retryWorkflow)) = Some \<lparr>maxAttempts = 3, backoffMs = 100\<rparr>
   \<and> map_option runStatus (returnedRecord (exampleRun retryWorkflow)) = Some Completed
   \<and> requestedTimers (exampleRun retryWorkflow) = [100 * 1, 100 * 2]
   \<and> map_option (map stepId \<circ> stepExecutions) (returnedRecord (exampleRun retryWorkflow))
       = Some [''s1'']
   \<and> map_option (map status \<circ> stepExecutions) (returnedRecord (exampleRun retryWorkflow))
       = Some [StepCompleted]
   \<and> map_option (map retryCount \<circ> stepExecutions) (returnedRecord (exampleRun retryWorkflow))
       = Some [0]"
  by code_simp

text \<open>
  In general: no run writes \<^verbatim>\<open>retryCount\<close>. Every entry of every returned record has
  the 0 that \<open>addStepExecution\<close> gave it.
\<close>

lemma retryCountsZero_add: "retryCountsZero ex \<Longrightarrow> retryCountsZero (addStepExecution ex sid ty)"
  by (simp add: retryCountsZero_def addStepExecution_def newStepExecution_def)

lemma retryCountsZero_update:
  assumes "retryCountsZero ex"
  shows "retryCountsZero (updateStepExecution ex sid ups)"
proof (cases "findIndex (\<lambda>se. stepId se = sid) (stepExecutions ex)")
  case None
  with assms show ?thesis by (simp add: updateStepExecution_def)
next
  case (Some i)
  then have i: "i < length (stepExecutions ex)"
    using findIndex_Some by fastforce
  with assms have "retryCount (stepExecutions ex ! i) = 0"
    by (simp add: retryCountsZero_def list_all_length)
  then have "retryCount (objectAssign (stepExecutions ex ! i) ups) = 0"
    by (simp add: objectAssign_keeps)
  moreover have "set ((stepExecutions ex)[i := objectAssign (stepExecutions ex ! i) ups])
      \<subseteq> insert (objectAssign (stepExecutions ex ! i) ups) (set (stepExecutions ex))"
    by (rule set_update_subset_insert)
  ultimately show ?thesis
    using assms Some by (auto simp: retryCountsZero_def updateStepExecution_def list_all_iff)
qed

lemma retryCountsZero_metrics [simp]: "retryCountsZero (ex\<lparr>metrics := m\<rparr>) = retryCountsZero ex"
  by (simp add: retryCountsZero_def)

lemma executeStepBody_retryCountsZero:
  assumes "executeStepBody env workflow step st = (r, st1)" "retryCountsZero (execution st)"
  shows "retryCountsZero (execution st1)"
  using assms
  by (auto simp: executeStepBody_def Let_def retryCountsZero_update
      split: option.splits sum.splits prod.splits dest!: executeWithRetry_frame)

lemma executeStep_retryCountsZero:
  assumes "executeStep env workflow step st = (r, st1)" "retryCountsZero (execution st)"
  shows "retryCountsZero (execution st1)"
proof -
  let ?st2 = "st\<lparr>execution := updateStepExecution (addStepExecution (execution st) (step_id step) (step_type step))
      (step_id step) [SetStatus StepRunning, SetStartedAt (now env (world st))]\<rparr>"
  obtain r3 st3 where b: "executeStepBody env workflow step ?st2 = (r3, st3)"
    by (cases "executeStepBody env workflow step ?st2")
  have "retryCountsZero (execution ?st2)"
    using assms(2) by (simp add: retryCountsZero_update retryCountsZero_add)
  with b have "retryCountsZero (execution st3)"
    by (rule executeStepBody_retryCountsZero)
  with assms(1) b show ?thesis
    by (auto simp: executeStep_def Let_def retryCountsZero_update split: sum.splits if_splits)
qed

lemma executeStepsLoop_retryCountsZero:
  "executeStepsLoop env workflow maxStepsV timeoutMs startTime current executed st = (r, st1) \<Longrightarrow>
   retryCountsZero (execution st) \<Longrightarrow> retryCountsZero (execution st1)"
proof (induction env workflow maxStepsV timeoutMs startTime current executed st arbitrary: r st1
    rule: executeStepsLoop.induct)
  case (1 env workflow maxStepsV timeoutMs startTime currentStepId executed st)
  note unfold = executeStepsLoop.simps [of env workflow maxStepsV timeoutMs startTime currentStepId executed st]
  show ?case
  proof (cases "truthy currentStepId \<and> \<not> int executed \<ge> maxStepsV
      \<and> \<not> timedOut timeoutMs (now env (world st) - startTime)")
    case False
    with "1.prems" show ?thesis
      by (auto simp: unfold split: if_splits)
  next
    case go: True
    show ?thesis
    proof (cases "find (\<lambda>s. strictEquals (JStr (step_id s)) currentStepId) (steps workflow)")
      case None
      with go "1.prems" show ?thesis
        by (auto simp: unfold)
    next
      case (Some step)
      obtain r2 st2 where es: "executeStep env workflow step st = (r2, st2)"
        by (cases "executeStep env workflow step st")
      have z2: "retryCountsZero (execution st2)"
        using es "1.prems"(2) by (rule executeStep_retryCountsZero)
      show ?thesis
      proof (cases r2)
        case (Inl err)
        with go Some es "1.prems" have "st1 = st2"
          by (auto simp: unfold)
        with z2 show ?thesis by simp
      next
        case (Inr nextV)
        let ?st3 = "st2\<lparr>execution := (execution st2)
                            \<lparr>metrics := (metrics (execution st2))\<lparr>stepsExecuted := Suc executed\<rparr>\<rparr>\<rparr>"
        have rec: "executeStepsLoop env workflow maxStepsV timeoutMs startTime nextV (Suc executed) ?st3
            = (r, st1)"
          using go Some es Inr "1.prems" by (auto simp: unfold)
        have "retryCountsZero (execution ?st3)"
          using z2 by simp
        with "1.IH" [OF _ _ _ Some es [symmetric] Inr rec] go show ?thesis by auto
      qed
    qed
  qed
qed

lemma execute_never_writes_retryCount:
  assumes "execute env workflow orgId payload subOrgId options w = Inr st"
  shows "list_all (\<lambda>se. retryCount se = 0) (stepExecutions (execution st))"
proof -
  define ex1 where "ex1 = (initialExecution (newExecutionId env w) (workflow_id workflow)
      (version workflow) orgId payload subOrgId)\<lparr>runStatus := Running, runStartedAt := Some (now env w)\<rparr>"
  define st0 where "st0 = \<lparr>world = w, timers = [], execution = ex1,
      tcontext = \<lparr>ctxInput = payload, ctxSteps = Map.empty,
                    ctxContext = \<lparr>cWorkflowId = workflow_id workflow, cExecutionId = execId ex1,
                                  cOrganizationId = orgId, cSubOrganizationId = subOrgId\<rparr>\<rparr>\<rparr>"
  obtain r st1 where es: "executeSteps env workflow options st0 = (r, st1)"
    by (cases "executeSteps env workflow options st0")
  have "retryCountsZero (execution st0)"
    by (simp add: st0_def ex1_def initialExecution_def retryCountsZero_def)
  with es have z: "retryCountsZero (execution st1)"
    unfolding executeSteps_def Let_def by (rule executeStepsLoop_retryCountsZero)
  from assms es have "stepExecutions (execution st) = stepExecutions (execution st1)"
    by (auto simp: execute_def createWorkflowExecution_def Let_def st0_def ex1_def
        split: option.splits if_splits sum.splits Thrown.splits)
  with z show ?thesis by (simp add: retryCountsZero_def)
qed

lemma executeStepBody_changedOnlyAt:
  assumes "findIndex (\<lambda>se. stepId se = step_id step) base = Some i"
    and "changedOnlyAt i base (stepExecutions (execution st))"
    and "executeStepBody env workflow step st = (r, st1)"
  shows "changedOnlyAt i base (stepExecutions (execution st1))"
  using assms(3) assms(2) changedOnlyAt_update [OF assms(1)]
  by (auto simp: executeStepBody_def Let_def split: option.splits sum.splits prod.splits
      dest!: executeWithRetry_frame)

lemma executeStep_changedOnlyAt:
  assumes idx: "findIndex (\<lambda>se. stepId se = step_id step) (stepExecutions (execution st)) = Some i"
    and run: "executeStep env workflow step st = (r, st1)"
  shows "changedOnlyAt i (stepExecutions (execution st) @ [newStepExecution (step_id step) (step_type step)])
           (stepExecutions (execution st1))"
proof -
  let ?base = "stepExecutions (execution st) @ [newStepExecution (step_id step) (step_type step)]"
  have idx': "findIndex (\<lambda>se. stepId se = step_id step) ?base = Some i"
    using idx by (rule findIndex_append)
  define st2 where "st2 = st\<lparr>execution := updateStepExecution
      (addStepExecution (execution st) (step_id step) (step_type step)) (step_id step)
      [SetStatus StepRunning, SetStartedAt (now env (world st))]\<rparr>"
  have inv2: "changedOnlyAt i ?base (stepExecutions (execution st2))"
    using changedOnlyAt_update [OF idx', of "addStepExecution (execution st) (step_id step) (step_type step)"]
    by (simp add: st2_def addStepExecution_def changedOnlyAt_refl)
  obtain r3 st3 where body: "executeStepBody env workflow step st2 = (r3, st3)"
    by (cases "executeStepBody env workflow step st2")
  have inv3: "changedOnlyAt i ?base (stepExecutions (execution st3))"
    using executeStepBody_changedOnlyAt [OF idx' inv2 body] .
  show ?thesis
  proof (cases r3)
    case (Inr nextV)
    with run body have "st1 = st3"
      by (simp add: executeStep_def Let_def st2_def)
    with inv3 show ?thesis by simp
  next
    case (Inl err)
    with run body have "execution st1 = updateStepExecution (execution st3) (step_id step)
        [SetStatus StepFailed, SetError (Some (thrownMessage (stringOf env) err)),
         SetCompletedAt (now env (world st3))]"
      by (auto simp: executeStep_def Let_def st2_def split: if_splits)
    with changedOnlyAt_update [OF idx' inv3] show ?thesis by simp
  qed
qed

text \<open>
  C10. When a step runs while the record already holds an entry with its id, \<open>i\<close> being
  the index of the first such entry: every update addressed to that id is applied to
  entry \<open>i\<close>; \<open>executeStep\<close> appends one new entry, which is still in its initial
  pending state when the step is over, and leaves every entry other than \<open>i\<close> as it
  was. So the entries after the first one for a step id are never updated.
\<close>

theorem repeated_step_updates_first_entry:
  assumes "findIndex (\<lambda>se. stepId se = step_id step) (stepExecutions (execution st)) = Some i"
  shows "i < length (stepExecutions (execution st))
    \<and> (\<forall>j<i. stepId (stepExecutions (execution st) ! j) \<noteq> step_id step)
    \<and> stepExecutions (updateStepExecution (execution st) (step_id step) updates)
        = (stepExecutions (execution st))[i := objectAssign (stepExecutions (execution st) ! i) updates]
    \<and> length (stepExecutions (execution (snd (executeStep env workflow step st))))
        = Suc (length (stepExecutions (execution st)))
    \<and> last (stepExecutions (execution (snd (executeStep env workflow step st))))
        = newStepExecution (step_id step) (step_type step)
    \<and> (\<forall>j<length (stepExecutions (execution st)). j \<noteq> i \<longrightarrow>
          stepExecutions (execution (snd (executeStep env workflow step st))) ! j
            = stepExecutions (execution st) ! j)"
proof -
  let ?xs = "stepExecutions (execution st)"
  let ?new = "newStepExecution (step_id step) (step_type step)"
  let ?ys = "stepExecutions (execution (snd (executeStep env workflow step st)))"
  from findIndex_Some [OF assms]
  have i: "i < length ?xs" and first: "\<forall>j<i. stepId (?xs ! j) \<noteq> step_id step"
    by simp_all
  have upd: "stepExecutions (updateStepExecution (execution st) (step_id step) updates)
        = ?xs[i := objectAssign (?xs ! i) updates]"
    using assms by (rule updateStepExecution_at)
  have "changedOnlyAt i (?xs @ [?new]) ?ys"
    using executeStep_changedOnlyAt [OF assms, of env workflow] by (metis prod.collapse)
  then have len: "length ?ys = Suc (length ?xs)"
    and same: "\<forall>j<Suc (length ?xs). j \<noteq> i \<longrightarrow> ?ys ! j = (?xs @ [?new]) ! j"
    by (simp_all add: changedOnlyAt_def)
  from same i have "?ys ! length ?xs = ?new" by auto
  with len have lst: "last ?ys = ?new"
    by (metis diff_Suc_1 last_conv_nth length_0_conv nat.distinct(1))
  from same have others: "\<forall>j<length ?xs. j \<noteq> i \<longrightarrow> ?ys ! j = ?xs ! j"
    by (auto simp: nth_append)
  from i first upd len lst others show ?thesis by blast
qed

theorem repeated_step_updates_first_entry_witness:
  "findIndex (\<lambda>se. stepId se = step_id (hd (steps loopingWorkflow))) (stepExecutions (execution loopingOnce)) = Some 0
   \<and> map status (stepExecutions (execution loopingOnce)) = [StepCompleted]
   \<and> length (stepExecutions (execution (snd (executeStep exampleEnv loopingWorkflow (hd (steps loopingWorkflow)) loopingOnce)))) = 2
   \<and> last (stepExecutions (execution (snd (executeStep exampleEnv loopingWorkflow (hd (steps loopingWorkflow)) loopingOnce))))
       = newStepExecution ''again'' ''CONDITION''
   \<and> map status (stepExecutions (execution (snd (executeStep exampleEnv loopingWorkflow (hd (steps loopingWorkflow)) loopingOnce))))
       = [StepCompleted, StepPending]"
proof -
  have h: "findIndex (\<lambda>se. stepId se = step_id (hd (steps loopingWorkflow))) (stepExecutions (execution loopingOnce)) = Some 0"
    by code_simp
  have e: "map status (stepExecutions (execution loopingOnce)) = [StepCompleted]"
    "length (stepExecutions (execution loopingOnce)) = 1"
    "step_id (hd (steps loopingWorkflow)) = ''again''"
    "step_type (hd (steps loopingWorkflow)) = ''CONDITION''"
    "map status (stepExecutions (execution (snd (executeStep exampleEnv loopingWorkflow (hd (steps loopingWorkflow)) loopingOnce))))
       = [StepCompleted, StepPending]"
    by code_simp+
  show ?thesis
    using repeated_step_updates_first_entry [OF h, of "[]" exampleEnv loopingWorkflow] h e
    by simp
qed

text \<open>A whole run in which a step is executed twice.\<close>

lemma looping_run_record:
  "map_option (map stepId \<circ> stepExecutions) (returnedRecord (exampleRun loopingWorkflow))
     = Some [''again'', ''again'']"
  "map_option (map status \<circ> stepExecutions) (returnedRecord (exampleRun loopingWorkflow))
     = Some [StepCompleted, StepPending]"
  "map_option runError (returnedRecord (exampleRun loopingWorkflow))
     = Some (Some \<lparr>message = ''Exceeded maximum steps (2)'', code = ''WorkflowValidationError''\<rparr>)"
  by code_simp+

end
